theory Spec2Isabelle
  imports Complex_Main
begin

section \<open>Electromagnetic coil launcher: the simulation core\<close>

text \<open>
  The Python sources \<^verbatim>\<open>core/coil.py\<close>, \<^verbatim>\<open>core/capsule.py\<close>,
  \<^verbatim>\<open>core/acceleration_stage.py\<close>, \<^verbatim>\<open>physics/physics_engine.py\<close>,
  \<^verbatim>\<open>services/data_service.py\<close> and \<^verbatim>\<open>services/simulation_service.py\<close>
  are embedded function by function. Objects are records, a method takes the object and
  returns the updated one, every \<^verbatim>\<open>raise\<close> statement of the source is an
  \<open>Inl\<close> of a sum.

  Python floats are read as real numbers, so \<open>+\<close>, \<open>*\<close>, \<open>/\<close>, \<open>sqrt\<close>,
  \<open>exp\<close>, \<open>sin\<close> and \<open>cos\<close> are the exact operations. The constructors check
  their arguments as the source does (including the division that can fail before the
  checks run); inside the methods the divisors are the validated mass, lengths and
  inductance, which are positive on every constructed object, and the theorems are stated
  on such objects. Two places read a float expression with IEEE rounding after each
  operation: the clock of \<^verbatim>\<open>run\<close>, because whether the loop exits depends on the
  rounded sum \<^verbatim>\<open>self.time += self.dt\<close>, and the subsection on the mutual inductance in
  rounded arithmetic.

  What exact arithmetic leaves out: a real number has no range, so the exceptions that the
  interpreter raises on its own account, \<^verbatim>\<open>OverflowError\<close> from \<^verbatim>\<open>**\<close> on a float
  too large to square or cube and \<^verbatim>\<open>TypeError\<close> from \<^verbatim>\<open>np.sqrt\<close> on an integer
  beyond 64 bits, are no branch of the model, and neither are infinities and NaN. Where a
  method is shown to return a value, this is said of its \<^verbatim>\<open>raise\<close> statements in
  exact arithmetic; the theorems on \<^verbatim>\<open>run\<close> and on the update of the capsule current
  are stated so that they hold whether or not a step raises.
\<close>

subsection \<open>Exceptions\<close>

datatype error = ValueError string | ZeroDivisionError

subsection \<open>core/coil.py\<close>

record CoilProperties =
  turns :: int
  diameter :: real
  length_m :: real
  resistance :: real
  position_m :: real

text \<open>The dataclass constructor followed by \<^verbatim>\<open>__post_init__\<close>.\<close>

definition CoilProperties_init ::
  "int \<Rightarrow> real \<Rightarrow> real \<Rightarrow> real \<Rightarrow> real \<Rightarrow> error + CoilProperties" where
  "CoilProperties_init n d l r p =
     (if n \<le> 0 then Inl (ValueError ''Turns must be positive'')
      else if d \<le> 0 then Inl (ValueError ''Diameter must be positive'')
      else if l \<le> 0 then Inl (ValueError ''Length must be positive'')
      else Inr \<lparr>turns = n, diameter = d, length_m = l, resistance = r, position_m = p\<rparr>)"

text \<open>
  \<open>inductance_memo\<close> is the attribute \<^verbatim>\<open>_inductance\<close>: \<open>None\<close> until the property
  \<^verbatim>\<open>inductance\<close> is read for the first time.
\<close>

record Coil =
  properties :: CoilProperties
  current :: real
  inductance_memo :: "real option"

definition Coil_init :: "CoilProperties \<Rightarrow> Coil" where
  "Coil_init props = \<lparr>properties = props, current = 0, inductance_memo = None\<rparr>"

definition calculate_inductance :: "'a Coil_scheme \<Rightarrow> real" where
  "calculate_inductance c =
     (let mu_0 = 4 * pi * (1 / 10 ^ 7);
          radius = diameter (properties c) / 2;
          area = pi * radius ^ 2;
          turns_per_length = of_int (turns (properties c)) / length_m (properties c)
      in mu_0 * turns_per_length ^ 2 * area * length_m (properties c))"

text \<open>The lazy property: the value read, and the coil with the memo filled.\<close>

definition inductance :: "'a Coil_scheme \<Rightarrow> real \<times> 'a Coil_scheme" where
  "inductance c =
     (case inductance_memo c of
        None \<Rightarrow> (let v = calculate_inductance c in (v, c\<lparr>inductance_memo := Some v\<rparr>))
      | Some v \<Rightarrow> (v, c))"

definition set_current :: "real \<Rightarrow> 'a Coil_scheme \<Rightarrow> error + 'a Coil_scheme" where
  "set_current i c =
     (if i < 0 then Inl (ValueError ''Current cannot be negative'')
      else Inr (c\<lparr>current := i\<rparr>))"

definition get_magnetic_moment :: "'a Coil_scheme \<Rightarrow> real" where
  "get_magnetic_moment c =
     (let radius = diameter (properties c) / 2;
          area = pi * radius ^ 2
      in of_int (turns (properties c)) * current c * area)"

subsection \<open>core/capsule.py\<close>

record Capsule = Coil +
  mass :: real
  position :: real
  velocity :: real

text \<open>
  \<^verbatim>\<open>Capsule._calculate_resistance\<close>. The quotient is a float division, which raises
  when the effective area is zero; this runs before the geometry is validated.
\<close>

definition Capsule_calculate_resistance :: "real \<Rightarrow> real \<Rightarrow> error + real" where
  "Capsule_calculate_resistance d l =
     (let rho_aluminum = 2.65 / 10 ^ 8;
          current_path = pi * d;
          wall_thickness = 0.01;
          effective_area = pi * d * wall_thickness
      in if effective_area = 0 then Inl ZeroDivisionError
         else Inr (rho_aluminum * current_path / effective_area))"

definition Capsule_init :: "real \<Rightarrow> real \<Rightarrow> real \<Rightarrow> error + Capsule" where
  "Capsule_init m d l =
     (if m \<le> 0 then Inl (ValueError ''Mass must be positive'')
      else case Capsule_calculate_resistance d l of
        Inl e \<Rightarrow> Inl e
      | Inr r \<Rightarrow>
         (case CoilProperties_init 1 d l r 0 of
            Inl e \<Rightarrow> Inl e
          | Inr props \<Rightarrow>
              Inr \<lparr>properties = props, current = 0, inductance_memo = None,
                   mass = m, position = 0, velocity = 0\<rparr>))"

definition update_position :: "real \<Rightarrow> Capsule \<Rightarrow> Capsule" where
  "update_position new_position c =
     c\<lparr>position := new_position,
       properties :=
         \<lparr>turns = turns (properties c), diameter = diameter (properties c),
          length_m = length_m (properties c), resistance = resistance (properties c),
          position_m = new_position\<rparr>\<rparr>"

definition update_velocity :: "real \<Rightarrow> Capsule \<Rightarrow> Capsule" where
  "update_velocity new_velocity c = c\<lparr>velocity := new_velocity\<rparr>"

definition get_kinetic_energy :: "Capsule \<Rightarrow> real" where
  "get_kinetic_energy c = 0.5 * mass c * velocity c ^ 2"

definition get_momentum :: "Capsule \<Rightarrow> real" where
  "get_momentum c = mass c * velocity c"

text \<open>
  \<^verbatim>\<open>Capsule.apply_force\<close>, statement by statement: the velocity is assigned first,
  and the position statement then reads \<^verbatim>\<open>self.velocity\<close>.
\<close>

definition apply_force :: "real \<Rightarrow> real \<Rightarrow> Capsule \<Rightarrow> Capsule" where
  "apply_force force time_step c =
     (let acceleration = force / mass c;
          c1 = c\<lparr>velocity := velocity c + acceleration * time_step\<rparr>;
          c2 = c1\<lparr>position :=
                  position c1 + (velocity c1 * time_step + 0.5 * acceleration * time_step ^ 2)\<rparr>
      in update_position (position c2) c2)"

subsection \<open>core/acceleration_stage.py\<close>

record AccelerationStage = Coil +
  stage_id :: int
  capacitance :: real
  voltage :: real
  activation_time :: "real option"
  is_active :: bool

definition calculate_copper_resistance :: "int \<Rightarrow> real \<Rightarrow> real \<Rightarrow> real" where
  "calculate_copper_resistance n d l =
     (let rho_copper = 1.68 / 10 ^ 8;
          wire_diameter = 1.628 / 10 ^ 3;
          wire_area = pi * (wire_diameter / 2) ^ 2;
          wire_length_per_turn = pi * d;
          total_wire_length = of_int n * wire_length_per_turn
      in rho_copper * total_wire_length / wire_area)"

definition AccelerationStage_init ::
  "int \<Rightarrow> real \<Rightarrow> int \<Rightarrow> real \<Rightarrow> real \<Rightarrow> real \<Rightarrow> real \<Rightarrow> error + AccelerationStage" where
  "AccelerationStage_init sid pos n d l cap v =
     (let r = calculate_copper_resistance n d l
      in case CoilProperties_init n d l r pos of
           Inl e \<Rightarrow> Inl e
         | Inr props \<Rightarrow>
             Inr \<lparr>properties = props, current = 0, inductance_memo = None,
                  stage_id = sid, capacitance = cap, voltage = v,
                  activation_time = None, is_active = False\<rparr>)"

definition activate :: "real \<Rightarrow> AccelerationStage \<Rightarrow> AccelerationStage" where
  "activate t s = s\<lparr>activation_time := Some t, is_active := True\<rparr>"

text \<open>
  \<^verbatim>\<open>get_current\<close> and \<^verbatim>\<open>get_current_derivative\<close> read the lazy inductance after
  the early return, so they give back the stage as well.
\<close>

definition get_current :: "AccelerationStage \<Rightarrow> real \<Rightarrow> real \<times> AccelerationStage" where
  "get_current s t =
     (case activation_time s of
        None \<Rightarrow> (0, s)
      | Some t0 \<Rightarrow>
          if \<not> is_active s \<or> t < t0 then (0, s)
          else
            let dt = t - t0;
                (L, s') = inductance s;
                C = capacitance s';
                R = resistance (properties s');
                omega_0 = 1 / sqrt (L * C);
                alpha = R / (2 * L);
                i = (if alpha < omega_0 then
                       let omega_d = sqrt (omega_0 ^ 2 - alpha ^ 2)
                       in (voltage s' / (omega_d * L)) * exp (- alpha * dt) * sin (omega_d * dt)
                     else if alpha = omega_0 then
                       (voltage s' / L) * dt * exp (- alpha * dt)
                     else 0)
            in (max 0 i, s'))"

definition get_current_derivative ::
  "AccelerationStage \<Rightarrow> real \<Rightarrow> real \<times> AccelerationStage" where
  "get_current_derivative s t =
     (case activation_time s of
        None \<Rightarrow> (0, s)
      | Some t0 \<Rightarrow>
          if \<not> is_active s \<or> t < t0 then (0, s)
          else
            let dt = t - t0;
                (L, s') = inductance s;
                C = capacitance s';
                R = resistance (properties s');
                omega_0 = 1 / sqrt (L * C);
                alpha = R / (2 * L);
                derivative =
                    (if alpha < omega_0 then
                       let omega_d = sqrt (omega_0 ^ 2 - alpha ^ 2);
                           amplitude = voltage s' / (omega_d * L);
                           exp_term = exp (- alpha * dt);
                           cos_term = omega_d * cos (omega_d * dt);
                           sin_term = alpha * sin (omega_d * dt)
                       in amplitude * exp_term * (cos_term - sin_term)
                     else if alpha = omega_0 then
                       (voltage s' / L) * exp (- alpha * dt) * (1 - alpha * dt)
                     else 0)
            in (derivative, s'))"

definition stored_energy :: "AccelerationStage \<Rightarrow> real" where
  "stored_energy s = 0.5 * capacitance s * voltage s ^ 2"

definition reset_stage :: "AccelerationStage \<Rightarrow> AccelerationStage" where
  "reset_stage s = s\<lparr>is_active := False, activation_time := None, current := 0\<rparr>"

subsection \<open>physics/physics_engine.py\<close>

record PhysicsEngine =
  mu_0 :: real

definition PhysicsEngine_init :: PhysicsEngine where
  "PhysicsEngine_init = \<lparr>mu_0 = 4 * pi * (1 / 10 ^ 7)\<rparr>"

definition calculate_overlapping_inductance ::
  "PhysicsEngine \<Rightarrow> 'a Coil_scheme \<Rightarrow> 'b Coil_scheme \<Rightarrow> real \<Rightarrow> real" where
  "calculate_overlapping_inductance self coil1 coil2 distance =
     (let r1 = diameter (properties coil1) / 2;
          r2 = diameter (properties coil2) / 2;
          reference_length = max (length_m (properties coil1)) (length_m (properties coil2));
          overlap = max 0 (1 - distance / reference_length)
      in mu_0 self * sqrt (r1 * r2)
           * sqrt (of_int (turns (properties coil1) * turns (properties coil2))) * overlap)"

definition calculate_far_field_inductance ::
  "PhysicsEngine \<Rightarrow> 'a Coil_scheme \<Rightarrow> 'b Coil_scheme \<Rightarrow> real \<Rightarrow> real" where
  "calculate_far_field_inductance self coil1 coil2 distance =
     (let r1 = diameter (properties coil1) / 2;
          r2 = diameter (properties coil2) / 2
      in (mu_0 self * pi * r1 ^ 2 * r2 ^ 2
            * sqrt (of_int (turns (properties coil1) * turns (properties coil2))))
         / distance ^ 3)"

definition calculate_mutual_inductance ::
  "PhysicsEngine \<Rightarrow> 'a Coil_scheme \<Rightarrow> 'b Coil_scheme \<Rightarrow> real \<Rightarrow> error + real" where
  "calculate_mutual_inductance self coil1 coil2 distance =
     (if distance < 0 then Inl (ValueError ''Distance cannot be negative'')
      else if distance < max (length_m (properties coil1)) (length_m (properties coil2))
      then Inr (calculate_overlapping_inductance self coil1 coil2 distance)
      else Inr (calculate_far_field_inductance self coil1 coil2 distance))"

definition calculate_force ::
  "PhysicsEngine \<Rightarrow> 'a Coil_scheme \<Rightarrow> 'b Coil_scheme \<Rightarrow> real \<Rightarrow> real \<Rightarrow> real \<Rightarrow> error + real" where
  "calculate_force self coil1 coil2 distance current1 current2 =
     (if current1 = 0 \<or> current2 = 0 then Inr 0
      else
        let dx = 0.001
        in case calculate_mutual_inductance self coil1 coil2 (distance + dx / 2) of
             Inl e \<Rightarrow> Inl e
           | Inr m_plus \<Rightarrow>
              (case calculate_mutual_inductance self coil1 coil2 (distance - dx / 2) of
                 Inl e \<Rightarrow> Inl e
               | Inr m_minus \<Rightarrow>
                   let dm_dx = (m_plus - m_minus) / dx
                   in Inr (- current1 * current2 * dm_dx)))"

definition update_kinematics :: "PhysicsEngine \<Rightarrow> Capsule \<Rightarrow> real \<Rightarrow> real \<Rightarrow> Capsule" where
  "update_kinematics self c force dt =
     (let acceleration = force / mass c;
          new_position = position c + velocity c * dt + 0.5 * acceleration * dt ^ 2;
          new_velocity = velocity c + acceleration * dt
      in update_velocity new_velocity (update_position new_position c))"

subsection \<open>services/data_service.py\<close>

record SimulationRecord =
  r_time :: real
  r_position :: real
  r_velocity :: real
  r_acceleration :: real
  r_force :: real
  r_kinetic_energy :: real
  r_capsule_current :: real
  r_active_stages :: int
  r_total_stage_current :: real

record SimulationResult =
  final_velocity :: real
  final_position :: real
  total_time :: real
  initial_energy :: real
  result_history :: "SimulationRecord list"

record DataService =
  history :: "SimulationRecord list"
  metadata :: "string \<rightharpoonup> real"

definition DataService_init :: DataService where
  "DataService_init = \<lparr>history = [], metadata = Map.empty\<rparr>"

text \<open>
  The generator \<^verbatim>\<open>sum(stage.get_current(time) for stage in stages if stage.is_active)\<close>:
  the running sum, and the stages as the reads of the current leave them.
\<close>

fun sum_active_currents ::
  "real \<Rightarrow> real \<Rightarrow> AccelerationStage list \<Rightarrow> real \<times> AccelerationStage list" where
  "sum_active_currents t running [] = (running, [])"
| "sum_active_currents t running (st # rest) =
     (if is_active st then
        let (i, st') = get_current st t;
            (total_current, rest') = sum_active_currents t (running + i) rest
        in (total_current, st' # rest')
      else
        let (total_current, rest') = sum_active_currents t running rest
        in (total_current, st # rest'))"

definition data_record ::
  "real \<Rightarrow> Capsule \<Rightarrow> AccelerationStage list \<Rightarrow> real \<Rightarrow> DataService
     \<Rightarrow> DataService \<times> AccelerationStage list" where
  "data_record t c sts force d =
     (let kinetic_energy = 0.5 * mass c * velocity c ^ 2;
          acceleration = force / mass c;
          active_stages = int (length (filter is_active sts));
          (total_stage_current, sts') = sum_active_currents t 0 sts;
          r = \<lparr>r_time = t, r_position = position c, r_velocity = velocity c,
               r_acceleration = acceleration, r_force = force,
               r_kinetic_energy = kinetic_energy, r_capsule_current = current c,
               r_active_stages = active_stages,
               r_total_stage_current = total_stage_current\<rparr>
      in (d\<lparr>history := history d @ [r]\<rparr>, sts'))"

definition get_results :: "DataService \<Rightarrow> error + SimulationResult" where
  "get_results d =
     (if history d = [] then Inl (ValueError ''No data collected - cannot generate results'')
      else
        let final_record = last (history d);
            e0 = (case metadata d ''initial_energy'' of None \<Rightarrow> 0 | Some e \<Rightarrow> e)
        in Inr \<lparr>final_velocity = r_velocity final_record,
                final_position = r_position final_record,
                total_time = r_time final_record,
                initial_energy = e0,
                result_history = history d\<rparr>)"

definition data_reset :: "DataService \<Rightarrow> DataService" where
  "data_reset d = d\<lparr>history := [], metadata := Map.empty\<rparr>"

definition set_initial_energy :: "real \<Rightarrow> DataService \<Rightarrow> DataService" where
  "set_initial_energy e d = d\<lparr>metadata := (metadata d)(''initial_energy'' \<mapsto> e)\<rparr>"

subsection \<open>Rounding to a double\<close>

text \<open>
  \<open>fl\<close> rounds a real number to the nearest number with a 53-bit significand, ties to
  the even significand, as IEEE 754 binary64 does; the exponent is not bounded, so
  overflow, underflow and subnormal numbers are left out. A float operation of the
  source, where it is read with rounding, is the exact operation followed by \<open>fl\<close>.
\<close>

definition round_half_even :: "real \<Rightarrow> int" where
  "round_half_even x =
     (let f = \<lfloor>x\<rfloor>; r = x - of_int f
      in if r < 1 / 2 then f else if 1 / 2 < r then f + 1 else if even f then f else f + 1)"

definition fl :: "real \<Rightarrow> real" where
  "fl x =
     (if x = 0 then 0
      else let e = \<lfloor>log 2 \<bar>x\<bar>\<rfloor> - 52
           in sgn x * of_int (round_half_even (\<bar>x\<bar> / 2 powi e)) * 2 powi e)"

subsection \<open>services/simulation_service.py\<close>

record InitialCapsuleState =
  init_position :: real
  init_velocity :: real
  init_current :: real

record SimulationService =
  capsule :: Capsule
  stages :: "AccelerationStage list"
  tube_length :: real
  dt :: real
  physics :: PhysicsEngine
  data :: DataService
  time :: real
  initial_capsule_state :: InitialCapsuleState

definition SimulationService_init ::
  "Capsule \<Rightarrow> AccelerationStage list \<Rightarrow> real \<Rightarrow> real \<Rightarrow> SimulationService" where
  "SimulationService_init c sts tube step_size =
     \<lparr>capsule = c, stages = sts, tube_length = tube, dt = step_size,
      physics = PhysicsEngine_init, data = DataService_init, time = 0,
      initial_capsule_state =
        \<lparr>init_position = position c, init_velocity = velocity c, init_current = current c\<rparr>\<rparr>"

definition check_stage_activations :: "SimulationService \<Rightarrow> SimulationService" where
  "check_stage_activations s =
     s\<lparr>stages :=
         map (\<lambda>st.
                if \<not> is_active st then
                  let distance_to_stage = abs (position (capsule s) - position_m (properties st));
                      activation_distance = max (length_m (properties st)) 0.01
                  in if distance_to_stage \<le> activation_distance then activate (time s) st
                     else st
                else st)
             (stages s)\<rparr>"

definition calculate_mutual_inductance_gradient ::
  "SimulationService \<Rightarrow> AccelerationStage \<Rightarrow> real \<Rightarrow> error + real" where
  "calculate_mutual_inductance_gradient s st distance =
     (let dx = 0.001;
          dist_plus = max 0.001 (distance + dx / 2);
          dist_minus = max 0.001 (distance - dx / 2)
      in case calculate_mutual_inductance (physics s) st (capsule s) dist_plus of
           Inl e \<Rightarrow> Inl e
         | Inr m_plus \<Rightarrow>
            (case calculate_mutual_inductance (physics s) st (capsule s) dist_minus of
               Inl e \<Rightarrow> Inl e
             | Inr m_minus \<Rightarrow> Inr ((m_plus - m_minus) / dx)))"

text \<open>
  The loop of \<^verbatim>\<open>_update_capsule_current\<close> over the stages: the accumulated EMF and
  the stages after the reads of current and derivative.
\<close>

fun induced_emf_loop ::
  "SimulationService \<Rightarrow> real \<Rightarrow> AccelerationStage list
     \<Rightarrow> error + real \<times> AccelerationStage list" where
  "induced_emf_loop s total_induced_emf [] = Inr (total_induced_emf, [])"
| "induced_emf_loop s total_induced_emf (st # rest) =
     (if is_active st then
        (let distance = max 0.001 (abs (position (capsule s) - position_m (properties st)));
             (stage_current, st1) = get_current st (time s)
         in (case calculate_mutual_inductance (physics s) st1 (capsule s) distance of
               Inl e \<Rightarrow> Inl e
             | Inr mutual_inductance \<Rightarrow>
                (let (stage_current_rate, st2) = get_current_derivative st1 (time s);
                     induced_emf = mutual_inductance * stage_current_rate
                 in (case calculate_mutual_inductance_gradient s st2 distance of
                       Inl e \<Rightarrow> Inl e
                     | Inr dm_dx \<Rightarrow>
                        (let motional_emf = velocity (capsule s) * stage_current * dm_dx
                         in (case induced_emf_loop s
                                    (total_induced_emf + (induced_emf + motional_emf)) rest of
                               Inl e \<Rightarrow> Inl e
                             | Inr (total', rest') \<Rightarrow> Inr (total', st2 # rest')))))))
      else
        (case induced_emf_loop s total_induced_emf rest of
           Inl e \<Rightarrow> Inl e
         | Inr (total', rest') \<Rightarrow> Inr (total', st # rest')))"

definition update_capsule_current :: "SimulationService \<Rightarrow> error + SimulationService" where
  "update_capsule_current s =
     (case induced_emf_loop s 0 (stages s) of
        Inl e \<Rightarrow> Inl e
      | Inr (total_induced_emf, sts') \<Rightarrow>
          let s1 = s\<lparr>stages := sts'\<rparr>
          in if resistance (properties (capsule s1)) > 0 then
               let induced_current = total_induced_emf / resistance (properties (capsule s1));
                   damping_factor = 0.1
               in Inr (s1\<lparr>capsule := (capsule s1)
                          \<lparr>current := current (capsule s1)
                             + damping_factor * (induced_current - current (capsule s1))\<rparr>\<rparr>)
             else Inr s1)"

text \<open>The loop of \<^verbatim>\<open>_calculate_total_force\<close>.\<close>

fun total_force_loop ::
  "SimulationService \<Rightarrow> real \<Rightarrow> AccelerationStage list
     \<Rightarrow> error + real \<times> AccelerationStage list" where
  "total_force_loop s total_force [] = Inr (total_force, [])"
| "total_force_loop s total_force (st # rest) =
     (if is_active st then
        (let (stage_current, st1) = get_current st (time s);
             distance = max 0.001 (abs (position (capsule s) - position_m (properties st1)))
         in if abs stage_current > 0.1 \<and> abs (current (capsule s)) > 0.001 then
              (case calculate_force (physics s) st1 (capsule s) distance
                      stage_current (current (capsule s)) of
                 Inl e \<Rightarrow> Inl e
               | Inr force \<Rightarrow>
                  (let position_relative = position (capsule s) - position_m (properties st1);
                       total1 = (if position_relative < 0 then total_force + force
                                 else total_force + force);
                       total2 = (if abs (velocity (capsule s)) > 0.01
                                 then total1 + (- 0.001 * velocity (capsule s)) else total1)
                   in (case total_force_loop s total2 rest of
                         Inl e \<Rightarrow> Inl e
                       | Inr (total', rest') \<Rightarrow> Inr (total', st1 # rest'))))
            else
              (case total_force_loop s total_force rest of
                 Inl e \<Rightarrow> Inl e
               | Inr (total', rest') \<Rightarrow> Inr (total', st1 # rest')))
      else
        (case total_force_loop s total_force rest of
           Inl e \<Rightarrow> Inl e
         | Inr (total', rest') \<Rightarrow> Inr (total', st # rest')))"

definition calculate_total_force ::
  "SimulationService \<Rightarrow> error + real \<times> SimulationService" where
  "calculate_total_force s =
     (case total_force_loop s 0 (stages s) of
        Inl e \<Rightarrow> Inl e
      | Inr (total_force, sts') \<Rightarrow> Inr (total_force, s\<lparr>stages := sts'\<rparr>))"

definition step :: "SimulationService \<Rightarrow> error + SimulationService" where
  "step s =
     (let s1 = check_stage_activations s
      in case update_capsule_current s1 of
           Inl e \<Rightarrow> Inl e
         | Inr s2 \<Rightarrow>
            (case calculate_total_force s2 of
               Inl e \<Rightarrow> Inl e
             | Inr (total_force, s3) \<Rightarrow>
                 let s4 = s3\<lparr>capsule :=
                              update_kinematics (physics s3) (capsule s3) total_force (dt s3)\<rparr>;
                     (d', sts') = data_record (time s4) (capsule s4) (stages s4) total_force
                                    (data s4)
                 in Inr (s4\<lparr>data := d', stages := sts'\<rparr>)))"

text \<open>
  The \<^verbatim>\<open>while\<close> loop of \<^verbatim>\<open>run\<close>. The clock is a float and
  \<^verbatim>\<open>self.time += self.dt\<close> is a float addition, so the new time is the rounded sum:
  when the step is small against the time, the sum rounds back to the time and the clock
  stands still. Nothing in the loop bounds the number of iterations, so the loop is a
  partial function: \<open>None\<close> is a loop that never exits, \<open>Some (Inl e)\<close> an exception
  raised by a step.
\<close>

partial_function (option) run_loop ::
  "real \<Rightarrow> SimulationService \<Rightarrow> (error + SimulationService) option" where
  "run_loop max_time s =
     (if time s < max_time \<and> position (capsule s) < tube_length s then
        case step s of
          Inl e \<Rightarrow> Some (Inl e)
        | Inr s' \<Rightarrow> run_loop max_time (s'\<lparr>time := fl (time s' + dt s')\<rparr>)
      else Some (Inr s))"

text \<open>
  \<^verbatim>\<open>run\<close>: the result or the exception, paired with the service as the call leaves it
  (when a step raises, the service at the entry of the loop).
\<close>

definition run ::
  "real \<Rightarrow> SimulationService \<Rightarrow> ((error + SimulationResult) \<times> SimulationService) option" where
  "run max_time s =
     (let initial_energy = sum_list (map stored_energy (stages s));
          s0 = s\<lparr>data := set_initial_energy initial_energy (data s)\<rparr>
      in case run_loop max_time s0 of
           None \<Rightarrow> None
         | Some (Inl e) \<Rightarrow> Some (Inl e, s0)
         | Some (Inr s') \<Rightarrow> Some (get_results (data s'), s'))"

definition reset :: "SimulationService \<Rightarrow> SimulationService" where
  "reset s =
     s\<lparr>time := 0,
       capsule := (capsule s)
         \<lparr>position := init_position (initial_capsule_state s),
          velocity := init_velocity (initial_capsule_state s),
          current := init_current (initial_capsule_state s)\<rparr>,
       stages := map (\<lambda>st. st\<lparr>is_active := False, activation_time := None\<rparr>) (stages s),
       data := data_reset (data s)\<rparr>"

subsection \<open>The mutual inductance in rounded arithmetic\<close>

text \<open>
  A second reading of \<^verbatim>\<open>calculate_mutual_inductance\<close>, for a question that exact
  arithmetic cannot decide: whether two float results are the same float. Every float
  operation of the source is the exact operation followed by \<open>fl\<close>; \<^verbatim>\<open>**\<close> and
  \<^verbatim>\<open>np.sqrt\<close> are taken as correctly rounded. \<open>np_pi\<close> is the double
  \<^verbatim>\<open>np.pi\<close>, and the engine's \<^verbatim>\<open>mu_0\<close> is computed as \<^verbatim>\<open>4 * np.pi * 1e-7\<close>
  is.
\<close>

definition np_pi :: real where
  "np_pi = 884279719003555 / 2 ^ 48"

definition fl_PhysicsEngine_init :: PhysicsEngine where
  "fl_PhysicsEngine_init = \<lparr>mu_0 = fl (fl (4 * np_pi) * fl (1 / 10 ^ 7))\<rparr>"

definition fl_calculate_overlapping_inductance ::
  "PhysicsEngine \<Rightarrow> 'a Coil_scheme \<Rightarrow> 'b Coil_scheme \<Rightarrow> real \<Rightarrow> real" where
  "fl_calculate_overlapping_inductance self coil1 coil2 distance =
     (let r1 = fl (diameter (properties coil1) / 2);
          r2 = fl (diameter (properties coil2) / 2);
          reference_length = max (length_m (properties coil1)) (length_m (properties coil2));
          overlap = max 0 (fl (1 - fl (distance / reference_length)))
      in fl (fl (fl (mu_0 self * fl (sqrt (fl (r1 * r2))))
                  * fl (sqrt (fl (of_int (turns (properties coil1) * turns (properties coil2))))))
             * overlap))"

definition fl_calculate_far_field_inductance ::
  "PhysicsEngine \<Rightarrow> 'a Coil_scheme \<Rightarrow> 'b Coil_scheme \<Rightarrow> real \<Rightarrow> real" where
  "fl_calculate_far_field_inductance self coil1 coil2 distance =
     (let r1 = fl (diameter (properties coil1) / 2);
          r2 = fl (diameter (properties coil2) / 2)
      in fl (fl (fl (fl (fl (mu_0 self * np_pi) * fl (r1 ^ 2)) * fl (r2 ^ 2))
                  * fl (sqrt (fl (of_int (turns (properties coil1) * turns (properties coil2))))))
             / fl (distance ^ 3)))"

definition fl_calculate_mutual_inductance ::
  "PhysicsEngine \<Rightarrow> 'a Coil_scheme \<Rightarrow> 'b Coil_scheme \<Rightarrow> real \<Rightarrow> error + real" where
  "fl_calculate_mutual_inductance self coil1 coil2 distance =
     (if distance < 0 then Inl (ValueError ''Distance cannot be negative'')
      else if distance < max (length_m (properties coil1)) (length_m (properties coil2))
      then Inr (fl_calculate_overlapping_inductance self coil1 coil2 distance)
      else Inr (fl_calculate_far_field_inductance self coil1 coil2 distance))"

subsection \<open>Valid elements\<close>

text \<open>What \<^verbatim>\<open>CoilProperties.__post_init__\<close> lets through.\<close>

definition valid_properties :: "CoilProperties \<Rightarrow> bool" where
  "valid_properties p = (0 < turns p \<and> 0 < diameter p \<and> 0 < length_m p)"

text \<open>
  What holds of every capsule and stage that a constructor returned and the methods
  have touched since: a valid geometry, a positive resistance and mass, and an inductance
  memo that is empty or holds the value computed from the geometry. On such objects no
  float division of the methods divides by zero.
\<close>

definition well_formed_stage :: "AccelerationStage \<Rightarrow> bool" where
  "well_formed_stage s =
     (valid_properties (properties s) \<and> 0 < resistance (properties s) \<and>
      (inductance_memo s = None \<or> inductance_memo s = Some (calculate_inductance s)))"

definition well_formed_capsule :: "Capsule \<Rightarrow> bool" where
  "well_formed_capsule c =
     (valid_properties (properties c) \<and> 0 < resistance (properties c) \<and> 0 < mass c)"

definition well_formed_service :: "SimulationService \<Rightarrow> bool" where
  "well_formed_service s =
     (well_formed_capsule (capsule s) \<and> list_all well_formed_stage (stages s))"

subsection \<open>The discharge current as the specification words it\<close>

text \<open>
  These definitions follow the specification, not the source: the natural frequency
  \<open>\<omega>\<^sub>0 = 1 / sqrt (L C)\<close>, the damping \<open>\<alpha> = R/(2L)\<close>, the damped frequency
  \<open>\<omega>\<^sub>d = sqrt (\<omega>\<^sub>0\<^sup>2 - \<alpha>\<^sup>2)\<close>, the waveform of the three branches before any clamp, and
  the current: zero when the stage is inactive or the time precedes the activation,
  the waveform clamped at zero otherwise. \<open>stage_L\<close> is the inductance the stage
  reports.
\<close>

definition spec_omega_0 :: "real \<Rightarrow> real \<Rightarrow> real" where
  "spec_omega_0 L C = 1 / sqrt (L * C)"

definition spec_alpha :: "real \<Rightarrow> real \<Rightarrow> real" where
  "spec_alpha R L = R / (2 * L)"

definition spec_omega_d :: "real \<Rightarrow> real \<Rightarrow> real \<Rightarrow> real" where
  "spec_omega_d L C R = sqrt ((spec_omega_0 L C) ^ 2 - (spec_alpha R L) ^ 2)"

definition spec_waveform :: "real \<Rightarrow> real \<Rightarrow> real \<Rightarrow> real \<Rightarrow> real \<Rightarrow> real" where
  "spec_waveform V L C R x =
     (if spec_alpha R L < spec_omega_0 L C then
        (V / (spec_omega_d L C R * L)) * exp (- spec_alpha R L * x) * sin (spec_omega_d L C R * x)
      else if spec_alpha R L = spec_omega_0 L C then
        (V / L) * x * exp (- spec_alpha R L * x)
      else 0)"

definition stage_L :: "AccelerationStage \<Rightarrow> real" where
  "stage_L s = fst (inductance s)"

definition stage_waveform :: "AccelerationStage \<Rightarrow> real \<Rightarrow> real" where
  "stage_waveform s x =
     spec_waveform (voltage s) (stage_L s) (capacitance s) (resistance (properties s)) x"

definition spec_get_current :: "AccelerationStage \<Rightarrow> real \<Rightarrow> real" where
  "spec_get_current s t =
     (case activation_time s of
        None \<Rightarrow> 0
      | Some t0 \<Rightarrow> if \<not> is_active s \<or> t < t0 then 0 else max 0 (stage_waveform s (t - t0)))"

subsection \<open>The objects of the repository's test fixtures\<close>

text \<open>
  \<^verbatim>\<open>Capsule(mass=1.0, diameter=0.083, length=0.02)\<close> and
  \<^verbatim>\<open>AccelerationStage(0, 0.05, 100, 0.09, 0.05, 1000e-6, 400)\<close>, as the unit tests
  build them.
\<close>

definition example_capsule :: Capsule where
  "example_capsule = projr (Capsule_init 1 0.083 0.02)"

definition example_stage :: AccelerationStage where
  "example_stage = projr (AccelerationStage_init 0 0.05 100 0.09 0.05 (1000 / 10 ^ 6) 400)"

text \<open>
  \<^verbatim>\<open>Capsule(1.0, 0.0859375, 0.03125)\<close> and
  \<^verbatim>\<open>AccelerationStage(0, 0.125, 100, 0.09765625, 0.0625, 1000e-6, 400)\<close>: close to the
  fixtures, with a geometry of binary fractions, so that every radius, square and cube
  below is a float without rounding.
\<close>

definition dyadic_capsule :: Capsule where
  "dyadic_capsule = projr (Capsule_init 1 (11 / 128) (1 / 32))"

definition dyadic_stage :: AccelerationStage where
  "dyadic_stage = projr (AccelerationStage_init 0 (1 / 8) 100 (25 / 256) (1 / 16) (1000 / 10 ^ 6) 400)"

text \<open>The fixture stage after \<^verbatim>\<open>activate(0.0)\<close>.\<close>

definition example_active_stage :: AccelerationStage where
  "example_active_stage = activate 0 example_stage"

text \<open>
  The scenario of the specification: the fixture capsule moved to 0.02, the fixture
  stage, a tube of 0.2 m and a time step of 10 microseconds.
\<close>

definition example_scenario_service :: SimulationService where
  "example_scenario_service =
     SimulationService_init (update_position 0.02 example_capsule) [example_stage] 0.2
       (1 / 10 ^ 5)"

text \<open>
  A service around the fixture capsule with no stage at all, a tube of 1 m and a time
  step of half a second: nothing ever moves, only the clock advances.
\<close>

definition example_idle_service :: SimulationService where
  "example_idle_service = SimulationService_init example_capsule [] 1 (1 / 2)"

text \<open>
  A service around the fixture capsule moved to 0.02 and the activated fixture stage,
  with \<^verbatim>\<open>service.time = 0.0036\<close> assigned as the unit tests assign it before they
  call \<^verbatim>\<open>_update_capsule_current\<close>.
\<close>

definition example_discharging_service :: SimulationService where
  "example_discharging_service =
     (SimulationService_init (update_position 0.02 example_capsule) [example_active_stage]
        0.2 (1 / 10 ^ 5))\<lparr>time := 0.0036\<rparr>"

text \<open>
  The scenario service as \<^verbatim>\<open>_step\<close> finds it after its first statement,
  \<^verbatim>\<open>_check_stage_activations\<close>: the capsule at 0.02 is within the length of the
  stage at 0.05, so the stage has just been activated at the time of the clock.
\<close>

definition example_activated_service :: SimulationService where
  "example_activated_service = check_stage_activations example_scenario_service"

text \<open>
  The idle service as \<^verbatim>\<open>run(0.75)\<close> leaves it: two records in the history, the
  clock at 1.
\<close>

definition example_finished_service :: SimulationService where
  "example_finished_service = snd (the (run (3 / 4) example_idle_service))"

text \<open>
  A service around the fixture capsule with no stage, a tube of 1 m and a time step of
  \<open>1 / 2 ^ 60\<close> seconds, with \<^verbatim>\<open>service.time = 1.0\<close> assigned: the step is below half
  the spacing of the doubles at 1.
\<close>

definition example_stalled_service :: SimulationService where
  "example_stalled_service =
     (SimulationService_init example_capsule [] 1 (1 / 2 ^ 60))\<lparr>time := 1\<rparr>"

section \<open>Properties\<close>

subsection \<open>Constructors\<close>

lemma example_capsule_init: "Capsule_init 1 0.083 0.02 = Inr example_capsule"
  by (simp add: example_capsule_def Capsule_init_def Capsule_calculate_resistance_def
      CoilProperties_init_def Let_def)

lemma example_capsule_eq:
  "example_capsule =
     \<lparr>properties = \<lparr>turns = 1, diameter = 0.083, length_m = 0.02,
                     resistance = 2.65 / 10 ^ 6, position_m = 0\<rparr>,
      current = 0, inductance_memo = None, mass = 1, position = 0, velocity = 0\<rparr>"
  by (simp add: example_capsule_def Capsule_init_def Capsule_calculate_resistance_def
      CoilProperties_init_def Let_def)

lemma stage_init_cases:
  "AccelerationStage_init sid pos n d l cap v =
     (if n \<le> 0 then Inl (ValueError ''Turns must be positive'')
      else if d \<le> 0 then Inl (ValueError ''Diameter must be positive'')
      else if l \<le> 0 then Inl (ValueError ''Length must be positive'')
      else Inr \<lparr>properties = \<lparr>turns = n, diameter = d, length_m = l,
                    resistance = calculate_copper_resistance n d l, position_m = pos\<rparr>,
                  current = 0, inductance_memo = None,
                  stage_id = sid, capacitance = cap, voltage = v,
                  activation_time = None, is_active = False\<rparr>)"
  by (simp add: AccelerationStage_init_def CoilProperties_init_def Let_def)

lemma copper_resistance_value:
  "calculate_copper_resistance n d l = of_int n * d * (4200 / 165649)"
  unfolding calculate_copper_resistance_def Let_def
  by (simp add: power2_eq_square)

lemma example_stage_init:
  "AccelerationStage_init 0 0.05 100 0.09 0.05 (1000 / 10 ^ 6) 400 = Inr example_stage"
  by (simp add: example_stage_def stage_init_cases)

lemma example_stage_eq:
  "example_stage =
     \<lparr>properties = \<lparr>turns = 100, diameter = 0.09, length_m = 0.05,
                     resistance = calculate_copper_resistance 100 0.09 0.05,
                     position_m = 0.05\<rparr>,
      current = 0, inductance_memo = None,
      stage_id = 0, capacitance = 1000 / 10 ^ 6, voltage = 400,
      activation_time = None, is_active = False\<rparr>"
  by (simp add: example_stage_def stage_init_cases)

text \<open>
  C4 (as stated, refuted): a stage with non-positive capacitance is constructed without
  any error. Here the capacitance is \<open>-1\<close> and the geometry is the fixture's.
\<close>

theorem stage_init_negative_capacitance_accepted:
  "AccelerationStage_init 0 0.05 100 0.09 0.05 (- 1) 400 =
     Inr \<lparr>properties = \<lparr>turns = 100, diameter = 0.09, length_m = 0.05,
                         resistance = calculate_copper_resistance 100 0.09 0.05,
                         position_m = 0.05\<rparr>,
          current = 0, inductance_memo = None,
          stage_id = 0, capacitance = - 1, voltage = 400,
          activation_time = None, is_active = False\<rparr>"
  by (simp add: AccelerationStage_init_def CoilProperties_init_def Let_def)

text \<open>
  C4 (amended): the constructor of AccelerationStage raises a validation error exactly
  when the turns, the diameter or the length is not positive (the checks of
  CoilProperties, in this order); capacitance and voltage are not checked, and with a
  valid geometry the stage is built with whatever capacitance it was given.
\<close>

theorem stage_init_validates_geometry_only:
  "(isl (AccelerationStage_init sid pos n d l cap v) \<longleftrightarrow> n \<le> 0 \<or> d \<le> 0 \<or> l \<le> 0) \<and>
   (0 < n \<and> 0 < d \<and> 0 < l \<longrightarrow>
      (\<exists>s. AccelerationStage_init sid pos n d l cap v = Inr s \<and> capacitance s = cap
            \<and> voltage s = v \<and> \<not> is_active s \<and> activation_time s = None))"
  by (simp add: AccelerationStage_init_def CoilProperties_init_def Let_def)

theorem stage_init_validates_geometry_only_witness:
  "\<not> isl (AccelerationStage_init 0 0.05 100 0.09 0.05 0 400) \<and>
   isl (AccelerationStage_init 0 0.05 100 0.09 0 0 400) \<and>
   (\<exists>s. AccelerationStage_init 0 0.05 100 0.09 0.05 0 400 = Inr s \<and> capacitance s = 0
         \<and> voltage s = 400 \<and> \<not> is_active s \<and> activation_time s = None)"
  using stage_init_validates_geometry_only [of 0 "0.05" 100 "0.09" "0.05" 0 400]
        stage_init_validates_geometry_only [of 0 "0.05" 100 "0.09" 0 0 400]
  by simp

subsection \<open>Capsule kinematics\<close>

lemma apply_force_velocity:
  "velocity (apply_force F h c) = velocity c + F / mass c * h"
  by (simp add: apply_force_def update_position_def Let_def)

lemma apply_force_position:
  "position (apply_force F h c) =
     position c + (velocity c + F / mass c * h) * h + 0.5 * (F / mass c) * h ^ 2"
  by (simp add: apply_force_def update_position_def Let_def)

text \<open>
  C5 (the code departs from the claim): on the fixture capsule (mass 1, at rest at 0),
  \<^verbatim>\<open>apply_force(1.0, 1.0)\<close> leaves the velocity at 1 and the position at 3/2, where
  \<open>x\<^sub>0 + v\<^sub>0 dt + 0.5 (F/m) dt\<^sup>2\<close> is 1/2: the position statement reads the velocity that
  the statement before it has already advanced.
\<close>

theorem apply_force_reads_updated_velocity:
  "velocity (apply_force 1 1 example_capsule) = 1 \<and>
   position (apply_force 1 1 example_capsule) = 3 / 2 \<and>
   position example_capsule + velocity example_capsule * 1
     + 0.5 * (1 / mass example_capsule) * 1 ^ 2 = 1 / 2"
  by (simp add: example_capsule_eq apply_force_def update_position_def Let_def)

subsection \<open>Position and properties position\<close>

lemma update_position_agrees:
  "position_m (properties (update_position x c)) = position (update_position x c)"
  by (simp add: update_position_def)

lemma apply_force_agrees:
  "position_m (properties (apply_force F h c)) = position (apply_force F h c)"
  by (simp add: apply_force_def update_position_def Let_def)

lemma update_kinematics_agrees:
  "position_m (properties (update_kinematics e c F h)) = position (update_kinematics e c F h)"
  by (simp add: update_kinematics_def update_position_def update_velocity_def Let_def)

text \<open>
  C3 (the code departs from the claim): a service is built around the fixture capsule
  (initial position 0), the capsule is moved with \<^verbatim>\<open>update_position(0.1)\<close>, and the
  service is reset. The reset writes the position attribute alone: the capsule is back
  at 0 while its properties still say 0.1.
\<close>

theorem reset_leaves_properties_position:
  "position (capsule (reset ((SimulationService_init example_capsule [] 1 (1 / 10 ^ 5))
       \<lparr>capsule := update_position 0.1 example_capsule\<rparr>))) = 0 \<and>
   position_m (properties (capsule (reset ((SimulationService_init example_capsule [] 1 (1 / 10 ^ 5))
       \<lparr>capsule := update_position 0.1 example_capsule\<rparr>)))) = 0.1"
  by (simp add: example_capsule_eq reset_def SimulationService_init_def update_position_def)

subsection \<open>The raise statements of a step\<close>

text \<open>
  The only \<^verbatim>\<open>raise\<close> statement that a step can reach is the one of
  \<^verbatim>\<open>calculate_mutual_inductance\<close> on a negative distance, and every distance that a
  step passes is at least 1 mm. So in the model, where arithmetic is exact, a step
  returns; the frame of what it leaves unchanged is used for the loop below.
\<close>

lemma cmi_nonneg:
  "0 \<le> d \<Longrightarrow> \<exists>m. calculate_mutual_inductance e a b d = Inr m"
  by (simp add: calculate_mutual_inductance_def)

lemma max_floor_nonneg: "(0::real) \<le> max 0.001 x"
  by (simp add: le_max_iff_disj)

lemma gradient_ok: "\<exists>g. calculate_mutual_inductance_gradient s st d = Inr g"
proof -
  obtain m1 where m1: "calculate_mutual_inductance (physics s) st (capsule s)
      (max 0.001 (d + 0.001 / 2)) = Inr m1"
    using cmi_nonneg [OF max_floor_nonneg, of "physics s" st "capsule s" "d + 0.001 / 2"] by auto
  obtain m2 where m2: "calculate_mutual_inductance (physics s) st (capsule s)
      (max 0.001 (d - 0.001 / 2)) = Inr m2"
    using cmi_nonneg [OF max_floor_nonneg, of "physics s" st "capsule s" "d - 0.001 / 2"] by auto
  show ?thesis
    using m1 m2 by (simp add: calculate_mutual_inductance_gradient_def Let_def)
qed

lemma force_ok:
  assumes "0.001 \<le> d"
  shows "\<exists>f. calculate_force e a b d i1 i2 = Inr f"
proof -
  obtain m1 where m1: "calculate_mutual_inductance e a b (d + 0.001 / 2) = Inr m1"
    using cmi_nonneg [of "d + 0.001 / 2" e a b] assms by auto
  obtain m2 where m2: "calculate_mutual_inductance e a b (d - 0.001 / 2) = Inr m2"
    using cmi_nonneg [of "d - 0.001 / 2" e a b] assms by auto
  show ?thesis
    using m1 m2 by (simp add: calculate_force_def Let_def)
qed

lemma induced_emf_loop_ok:
  "\<exists>tot sts'. induced_emf_loop s tot0 sts = Inr (tot, sts')"
proof (induction sts arbitrary: tot0)
  case Nil
  show ?case by simp
next
  case (Cons st rest)
  show ?case
  proof (cases "is_active st")
    case False
    with Cons [of tot0] show ?thesis by auto
  next
    case True
    define d where "d = max 0.001 (abs (position (capsule s) - position_m (properties st)))"
    obtain i st1 where g1: "get_current st (time s) = (i, st1)" by (cases "get_current st (time s)")
    obtain m where m: "calculate_mutual_inductance (physics s) st1 (capsule s) d = Inr m"
      unfolding d_def using cmi_nonneg [OF max_floor_nonneg, of "physics s" st1 "capsule s"] by auto
    obtain r st2 where g2: "get_current_derivative st1 (time s) = (r, st2)"
      by (cases "get_current_derivative st1 (time s)")
    obtain g where g: "calculate_mutual_inductance_gradient s st2 d = Inr g"
      using gradient_ok by blast
    obtain tot sts' where rec:
      "induced_emf_loop s (tot0 + (m * r + velocity (capsule s) * i * g)) rest = Inr (tot, sts')"
      using Cons by blast
    show ?thesis
      using True g1 m g2 g rec unfolding d_def by (simp add: Let_def)
  qed
qed

lemma total_force_loop_ok:
  "\<exists>tot sts'. total_force_loop s tot0 sts = Inr (tot, sts')"
proof (induction sts arbitrary: tot0)
  case Nil
  show ?case by simp
next
  case (Cons st rest)
  show ?case
  proof (cases "is_active st")
    case False
    with Cons [of tot0] show ?thesis by auto
  next
    case True
    obtain i st1 where g1: "get_current st (time s) = (i, st1)" by (cases "get_current st (time s)")
    define d where "d = max 0.001 (abs (position (capsule s) - position_m (properties st1)))"
    have dpos: "0.001 \<le> d" by (simp add: d_def)
    obtain f where f: "calculate_force (physics s) st1 (capsule s) d i (current (capsule s)) = Inr f"
      using force_ok [OF dpos] by blast
    note f' = f [unfolded d_def]
    show ?thesis
    proof (cases "abs i > 0.1 \<and> abs (current (capsule s)) > 0.001")
      case False
      obtain tot sts' where "total_force_loop s tot0 rest = Inr (tot, sts')"
        using Cons by blast
      then show ?thesis using True g1 False by (auto simp: Let_def)
    next
      case c: True
      define t2 where "t2 = (if abs (velocity (capsule s)) > 0.01
                                 then (tot0 + f) + (- 0.001 * velocity (capsule s)) else tot0 + f)"
      obtain tot sts' where "total_force_loop s t2 rest = Inr (tot, sts')"
        using Cons by blast
      then show ?thesis using True g1 c f'
        by (simp add: Let_def t2_def)
    qed
  qed
qed

lemma update_capsule_current_ok:
  "\<exists>s'. update_capsule_current s = Inr s' \<and> dt s' = dt s \<and> time s' = time s
        \<and> tube_length s' = tube_length s \<and> data s' = data s"
proof -
  obtain tot sts' where "induced_emf_loop s 0 (stages s) = Inr (tot, sts')"
    using induced_emf_loop_ok by blast
  then show ?thesis
    by (simp add: update_capsule_current_def Let_def)
qed

lemma calculate_total_force_ok:
  "\<exists>f s'. calculate_total_force s = Inr (f, s') \<and> dt s' = dt s \<and> time s' = time s
        \<and> tube_length s' = tube_length s \<and> data s' = data s"
proof -
  obtain tot sts' where "total_force_loop s 0 (stages s) = Inr (tot, sts')"
    using total_force_loop_ok by blast
  then show ?thesis
    by (simp add: calculate_total_force_def)
qed

lemma step_ok:
  "\<exists>s' r. step s = Inr s' \<and> dt s' = dt s \<and> time s' = time s
        \<and> tube_length s' = tube_length s
        \<and> history (data s') = history (data s) @ [r] \<and> r_time r = time s"
proof -
  define s1 where "s1 = check_stage_activations s"
  have s1: "dt s1 = dt s" "time s1 = time s" "tube_length s1 = tube_length s" "data s1 = data s"
    by (simp_all add: s1_def check_stage_activations_def)
  obtain s2 where s2: "update_capsule_current s1 = Inr s2" "dt s2 = dt s1" "time s2 = time s1"
      "tube_length s2 = tube_length s1" "data s2 = data s1"
    using update_capsule_current_ok by blast
  obtain f s3 where s3: "calculate_total_force s2 = Inr (f, s3)" "dt s3 = dt s2" "time s3 = time s2"
      "tube_length s3 = tube_length s2" "data s3 = data s2"
    using calculate_total_force_ok by blast
  show ?thesis
    using s1 s2 s3
    by (simp add: step_def s1_def [symmetric] Let_def data_record_def split: prod.splits)
qed

subsection \<open>Well-formed objects stay well-formed\<close>

lemma calculate_inductance_pos:
  "valid_properties (properties c) \<Longrightarrow> 0 < calculate_inductance c"
  by (simp add: valid_properties_def calculate_inductance_def Let_def)

lemma stage_L_well_formed:
  "well_formed_stage s \<Longrightarrow> stage_L s = calculate_inductance s"
  by (auto simp: well_formed_stage_def stage_L_def inductance_def Let_def)

lemma stage_L_pos: "well_formed_stage s \<Longrightarrow> 0 < stage_L s"
  by (simp add: stage_L_well_formed calculate_inductance_pos well_formed_stage_def)

lemma copper_resistance_pos: "0 < n \<Longrightarrow> 0 < d \<Longrightarrow> 0 < calculate_copper_resistance n d l"
  by (simp add: copper_resistance_value)

lemma stage_init_well_formed:
  "AccelerationStage_init sid pos n d l cap v = Inr s \<Longrightarrow> well_formed_stage s"
  by (auto simp: stage_init_cases well_formed_stage_def valid_properties_def
      copper_resistance_pos split: if_splits)

lemma capsule_init_well_formed:
  "Capsule_init m d l = Inr c \<Longrightarrow> well_formed_capsule c"
  by (auto simp: Capsule_init_def Capsule_calculate_resistance_def CoilProperties_init_def
      well_formed_capsule_def valid_properties_def Let_def split: if_splits)

lemma calculate_inductance_cong:
  "properties a = properties b \<Longrightarrow> calculate_inductance a = calculate_inductance b"
  by (simp add: calculate_inductance_def)

lemma activate_well_formed: "well_formed_stage s \<Longrightarrow> well_formed_stage (activate t s)"
  by (simp add: well_formed_stage_def activate_def calculate_inductance_def)

lemma inductance_well_formed: "well_formed_stage s \<Longrightarrow> well_formed_stage (snd (inductance s))"
  by (auto simp: well_formed_stage_def inductance_def Let_def calculate_inductance_def)

lemma get_current_well_formed:
  "well_formed_stage s \<Longrightarrow> well_formed_stage (snd (get_current s t))"
  using inductance_well_formed [of s]
  by (simp add: get_current_def Let_def case_prod_beta split: option.splits)

lemma get_current_derivative_well_formed:
  "well_formed_stage s \<Longrightarrow> well_formed_stage (snd (get_current_derivative s t))"
  using inductance_well_formed [of s]
  by (simp add: get_current_derivative_def Let_def case_prod_beta split: option.splits)

lemma update_position_well_formed:
  "well_formed_capsule c \<Longrightarrow> well_formed_capsule (update_position x c)"
  by (simp add: well_formed_capsule_def update_position_def valid_properties_def)

lemma update_kinematics_well_formed:
  "well_formed_capsule c \<Longrightarrow> well_formed_capsule (update_kinematics e c F h)"
  by (simp add: well_formed_capsule_def update_kinematics_def update_position_def
      update_velocity_def valid_properties_def Let_def)

lemma apply_force_well_formed:
  "well_formed_capsule c \<Longrightarrow> well_formed_capsule (apply_force F h c)"
  by (simp add: well_formed_capsule_def apply_force_def update_position_def
      valid_properties_def Let_def)

lemma induced_emf_loop_well_formed:
  "induced_emf_loop s tot0 sts = Inr (tot, sts') \<Longrightarrow> list_all well_formed_stage sts
     \<Longrightarrow> list_all well_formed_stage sts'"
proof (induction sts arbitrary: tot0 tot sts')
  case Nil
  then show ?case by simp
next
  case (Cons st rest)
  show ?case
  proof (cases "is_active st")
    case False
    then show ?thesis using Cons.prems Cons.IH
      by (auto split: sum.splits)
  next
    case True
    let ?st2 = "snd (get_current_derivative (snd (get_current st (time s))) (time s))"
    have w: "well_formed_stage ?st2"
      using Cons.prems(2) by (simp add: get_current_well_formed get_current_derivative_well_formed)
    show ?thesis using True Cons.prems Cons.IH w
      by (auto simp: Let_def case_prod_beta split: sum.splits)
  qed
qed

lemma total_force_loop_well_formed:
  "total_force_loop s tot0 sts = Inr (tot, sts') \<Longrightarrow> list_all well_formed_stage sts
     \<Longrightarrow> list_all well_formed_stage sts'"
proof (induction sts arbitrary: tot0 tot sts')
  case Nil
  then show ?case by simp
next
  case (Cons st rest)
  show ?case
  proof (cases "is_active st")
    case False
    then show ?thesis using Cons.prems Cons.IH
      by (auto split: sum.splits)
  next
    case True
    have w: "well_formed_stage (snd (get_current st (time s)))"
      using Cons.prems(2) by (simp add: get_current_well_formed)
    show ?thesis using True Cons.prems Cons.IH w
      by (auto simp: Let_def case_prod_beta split: sum.splits if_splits)
  qed
qed

lemma sum_active_currents_well_formed:
  "list_all well_formed_stage sts \<Longrightarrow>
   list_all well_formed_stage (snd (sum_active_currents t r sts))"
  by (induction sts arbitrary: r)
     (auto simp: Let_def case_prod_beta get_current_well_formed)

lemma check_stage_activations_well_formed:
  "well_formed_service s \<Longrightarrow> well_formed_service (check_stage_activations s)"
  by (auto simp: well_formed_service_def check_stage_activations_def list_all_iff
      activate_well_formed Let_def)

lemma update_capsule_current_well_formed:
  "update_capsule_current s = Inr s' \<Longrightarrow> well_formed_service s \<Longrightarrow> well_formed_service s'"
  by (auto simp: update_capsule_current_def well_formed_service_def well_formed_capsule_def
      Let_def split: sum.splits if_splits dest: induced_emf_loop_well_formed)

lemma calculate_total_force_well_formed:
  "calculate_total_force s = Inr (f, s') \<Longrightarrow> well_formed_service s \<Longrightarrow> well_formed_service s'"
  by (auto simp: calculate_total_force_def well_formed_service_def
      split: sum.splits dest: total_force_loop_well_formed)

lemma step_well_formed:
  assumes "step s = Inr s'" "well_formed_service s"
  shows "well_formed_service s'"
proof -
  define s1 where "s1 = check_stage_activations s"
  have w1: "well_formed_service s1"
    using assms(2) by (simp add: s1_def check_stage_activations_well_formed)
  obtain s2 where s2: "update_capsule_current s1 = Inr s2"
    using update_capsule_current_ok by blast
  have w2: "well_formed_service s2" using s2 w1 by (rule update_capsule_current_well_formed)
  obtain f s3 where s3: "calculate_total_force s2 = Inr (f, s3)"
    using calculate_total_force_ok by blast
  have w3: "well_formed_service s3" using s3 w2 by (rule calculate_total_force_well_formed)
  have "s' = s3\<lparr>capsule := update_kinematics (physics s3) (capsule s3) f (dt s3),
               data := fst (data_record (time s3)
                       (update_kinematics (physics s3) (capsule s3) f (dt s3)) (stages s3) f (data s3)),
               stages := snd (data_record (time s3)
                       (update_kinematics (physics s3) (capsule s3) f (dt s3)) (stages s3) f (data s3))\<rparr>"
    using assms(1) s2 s3 by (simp add: step_def s1_def [symmetric] Let_def case_prod_beta)
  moreover have "snd (data_record t c sts F d) = snd (sum_active_currents t 0 sts)" for t c sts F d
    by (simp add: data_record_def Let_def case_prod_beta)
  ultimately show ?thesis
    using w3 by (simp add: well_formed_service_def update_kinematics_well_formed
        sum_active_currents_well_formed)
qed

subsection \<open>Rounding to the nearest double\<close>

lemma round_half_even_near:
  assumes "\<bar>x - of_int m\<bar> < 1 / 2"
  shows "round_half_even x = m"
proof -
  have lo: "of_int m - 1 / 2 < x" and hi: "x < of_int m + 1 / 2"
    using assms by linarith+
  show ?thesis
  proof (cases "of_int m \<le> x")
    case True
    then have "\<lfloor>x\<rfloor> = m" using hi by (intro floor_unique) linarith+
    then show ?thesis using hi by (simp add: round_half_even_def Let_def)
  next
    case False
    have "of_int (m - 1) \<le> x" "x < of_int (m - 1) + 1" using lo False by simp_all
    then have f: "\<lfloor>x\<rfloor> = m - 1" by (rule floor_unique)
    have "1 / 2 < x - of_int (m - 1)" using lo by simp
    then show ?thesis using f by (simp add: round_half_even_def Let_def)
  qed
qed

lemma floor_log2:
  fixes x :: real
  assumes "0 < x" "2 ^ 52 \<le> x * 2 ^ k" "x * 2 ^ k < 2 ^ 53"
  shows "\<lfloor>log 2 x\<rfloor> = 52 - int k"
proof -
  have p: "0 < x * 2 ^ k" using assms(1) by simp
  have "log 2 (x * 2 ^ k) = log 2 x + real k"
    using assms(1) by (simp add: log_mult log_nat_power)
  moreover have "log 2 (2 ^ 52) \<le> log 2 (x * 2 ^ k)"
    using assms(2) p by (intro log_mono) simp_all
  moreover have "log 2 (x * 2 ^ k) < log 2 (2 ^ 53)"
    using assms(3) p by (subst log_less_cancel_iff) simp_all
  moreover have "log 2 ((2::real) ^ 52) = real 52 * log 2 2" by (rule log_nat_power) simp
  moreover have "log 2 ((2::real) ^ 53) = real 53 * log 2 2" by (rule log_nat_power) simp
  ultimately have "52 - real k \<le> log 2 x" "log 2 x < 53 - real k" by simp_all
  then show ?thesis by (intro floor_unique) simp_all
qed

lemma fl_nearest:
  assumes "0 < x" "2 ^ 52 \<le> x * 2 ^ k" "x * 2 ^ k < 2 ^ 53"
    and "\<bar>x * 2 ^ k - of_int m\<bar> < 1 / 2"
  shows "fl x = of_int m / 2 ^ k"
proof -
  have e: "\<lfloor>log 2 \<bar>x\<bar>\<rfloor> - 52 = - int k" using floor_log2 [OF assms(1-3)] assms(1) by simp
  have "\<bar>x\<bar> / 2 powi (- int k) = x * 2 ^ k"
    using assms(1) by (simp add: power_int_minus field_simps)
  then have "round_half_even (\<bar>x\<bar> / 2 powi (- int k)) = m"
    using assms(4) by (simp add: round_half_even_near)
  then show ?thesis
    using assms(1) unfolding fl_def e Let_def by (simp add: power_int_minus field_simps)
qed

lemma round_half_even_bounds:
  "real_of_int (round_half_even x) \<le> x + 1 / 2" "x - 1 / 2 \<le> real_of_int (round_half_even x)"
proof -
  define f where "f = \<lfloor>x\<rfloor>"
  have b: "real_of_int f \<le> x" "x < real_of_int f + 1" unfolding f_def by linarith+
  have r: "round_half_even x =
      (if x - of_int f < 1 / 2 then f else if 1 / 2 < x - of_int f then f + 1
       else if even f then f else f + 1)"
    by (simp add: round_half_even_def Let_def f_def)
  show "real_of_int (round_half_even x) \<le> x + 1 / 2"
    unfolding r using b by (auto split: if_splits)
  show "x - 1 / 2 \<le> real_of_int (round_half_even x)"
    unfolding r using b by (auto split: if_splits)
qed

text \<open>The rounding error of a positive number \<open>x\<close> is at most \<open>x / 2 ^ 53\<close>.\<close>

lemma fl_error:
  assumes "0 < x"
  shows "\<bar>fl x - x\<bar> \<le> x / 2 ^ 53"
proof -
  define e where "e = \<lfloor>log 2 x\<rfloor> - 52"
  define p where "p = (2::real) powi e"
  have p: "0 < p" by (simp add: p_def)
  have "real_of_int \<lfloor>log 2 x\<rfloor> \<le> log 2 x" by linarith
  then have "2 powr (real_of_int \<lfloor>log 2 x\<rfloor>) \<le> 2 powr (log 2 x)" by simp
  then have lo: "2 powr (real_of_int \<lfloor>log 2 x\<rfloor>) \<le> x" using assms by simp
  have "p = 2 powr (real_of_int e)" by (simp add: p_def powr_real_of_int')
  also have "\<dots> = 2 powr (real_of_int \<lfloor>log 2 x\<rfloor>) / 2 ^ 52"
    by (simp add: e_def powr_diff)
  finally have pe: "p = 2 powr (real_of_int \<lfloor>log 2 x\<rfloor>) / 2 ^ 52" .
  then have px: "p \<le> x / 2 ^ 52" using lo by (simp add: divide_right_mono)
  have f: "fl x = real_of_int (round_half_even (x / p)) * p"
    using assms by (simp add: fl_def Let_def e_def p_def)
  have "\<bar>real_of_int (round_half_even (x / p)) - x / p\<bar> \<le> 1 / 2"
    using round_half_even_bounds [of "x / p"] by linarith
  then have "\<bar>real_of_int (round_half_even (x / p)) - x / p\<bar> * p \<le> 1 / 2 * p"
    using p by (intro mult_right_mono) simp_all
  moreover have "\<bar>real_of_int (round_half_even (x / p)) - x / p\<bar> * p = \<bar>fl x - x\<bar>"
  proof -
    have "\<bar>real_of_int (round_half_even (x / p)) - x / p\<bar> * p
        = \<bar>(real_of_int (round_half_even (x / p)) - x / p) * p\<bar>"
      using p by (simp add: abs_mult)
    also have "(real_of_int (round_half_even (x / p)) - x / p) * p = fl x - x"
      using p unfolding f by (simp add: left_diff_distrib)
    finally show ?thesis .
  qed
  ultimately have "\<bar>fl x - x\<bar> \<le> p / 2" by simp
  also have "\<dots> \<le> x / 2 ^ 53" using px by simp
  finally show ?thesis .
qed

text \<open>
  A clock at \<open>t \<ge> 0\<close> advanced by a step \<open>h\<close> with \<open>t + h \<le> 2 ^ 52 * h\<close> moves
  forward by at least half the step, and by no more than the step and one rounding
  error.
\<close>

lemma fl_advance:
  assumes "0 \<le> t" "0 < h" "t + h \<le> 2 ^ 52 * h"
  shows "t + h / 2 \<le> fl (t + h)" "fl (t + h) \<le> (t + h) * (1 + 1 / 2 ^ 53)"
proof -
  have pos: "0 < t + h" using assms by linarith
  have e: "\<bar>fl (t + h) - (t + h)\<bar> \<le> (t + h) / 2 ^ 53" using pos by (rule fl_error)
  have "(t + h) / 2 ^ 53 \<le> 2 ^ 52 * h / 2 ^ 53" using assms(3) by (rule divide_right_mono) simp
  then have "(t + h) / 2 ^ 53 \<le> h / 2" by simp
  then show "t + h / 2 \<le> fl (t + h)" using e by linarith
  have "(t + h) * (1 + 1 / 2 ^ 53) = (t + h) + (t + h) / 2 ^ 53" by (simp add: distrib_left)
  then show "fl (t + h) \<le> (t + h) * (1 + 1 / 2 ^ 53)" using e by linarith
qed

lemma fl_half: "fl (1 / 2) = 1 / 2"
  using fl_nearest [of "1 / 2" 53 4503599627370496] by simp

lemma fl_one: "fl 1 = 1"
  using fl_nearest [of 1 52 4503599627370496] by simp

lemma fl_one_plus_tiny: "fl (1 + 1 / 2 ^ 60) = 1"
  using fl_nearest [of "1 + 1 / 2 ^ 60" 52 4503599627370496] by simp

subsection \<open>The loop of run\<close>

lemma run_loop_exit_now:
  "\<not> (time s < T \<and> position (capsule s) < tube_length s) \<Longrightarrow> run_loop T s = Some (Inr s)"
  by (subst run_loop.simps) auto

lemma run_loop_iterate:
  "time s < T \<Longrightarrow> position (capsule s) < tube_length s \<Longrightarrow> step s = Inr s1
     \<Longrightarrow> run_loop T s = run_loop T (s1\<lparr>time := fl (time s1 + dt s1)\<rparr>)"
  by (subst run_loop.simps) simp

lemma run_loop_raise:
  "time s < T \<Longrightarrow> position (capsule s) < tube_length s \<Longrightarrow> step s = Inl e
     \<Longrightarrow> run_loop T s = Some (Inl e)"
  by (subst run_loop.simps) simp

lemma time_update_well_formed:
  "well_formed_service (s\<lparr>time := t\<rparr>) = well_formed_service s"
  by (simp add: well_formed_service_def)

text \<open>What a step that returns leaves alone, and what it records.\<close>

lemma step_frame:
  assumes "step s = Inr s1"
  shows "dt s1 = dt s" "time s1 = time s" "tube_length s1 = tube_length s"
    "\<exists>r. history (data s1) = history (data s) @ [r] \<and> r_time r = time s"
  using step_ok [of s] assms by auto

text \<open>
  The loop ends, by an exception of a step or by its guard, when the clock starts at or
  after 0, the step is positive and \<open>max_time\<close> is at most \<open>2 ^ 52 - 1\<close> steps: every
  iteration then moves the clock by at least half a step. When the guard ends it, the
  clock has reached \<open>max_time\<close> or the capsule the end of the tube, and unless no
  iteration ran, the clock is the rounded sum of the last recorded time, which is below
  \<open>max_time\<close>, and the step.
\<close>

lemma run_loop_exits:
  assumes "0 < dt s" "0 \<le> time s" "T + dt s \<le> 2 ^ 52 * dt s"
  shows "\<exists>out. run_loop T s = Some out \<and>
           (case out of
              Inl e \<Rightarrow> True
            | Inr s' \<Rightarrow>
               (T \<le> time s' \<or> tube_length s' \<le> position (capsule s'))
               \<and> dt s' = dt s \<and> tube_length s' = tube_length s
               \<and> (s' = s \<or>
                   (history (data s') \<noteq> [] \<and> r_time (last (history (data s'))) < T
                    \<and> 0 \<le> r_time (last (history (data s')))
                    \<and> time s' = fl (r_time (last (history (data s'))) + dt s))))"
  using assms
proof (induction "nat \<lceil>(T - time s) / (dt s / 2)\<rceil>" arbitrary: s rule: less_induct)
  case less
  show ?case
  proof (cases "time s < T \<and> position (capsule s) < tube_length s")
    case False
    then show ?thesis using run_loop_exit_now [of s T] by auto
  next
    case True
    show ?thesis
    proof (cases "step s")
      case (Inl e)
      then have "run_loop T s = Some (Inl e)" using True by (simp add: run_loop_raise)
      then show ?thesis by simp
    next
      case (Inr s1)
      obtain r where s1: "dt s1 = dt s" "time s1 = time s" "tube_length s1 = tube_length s"
          "history (data s1) = history (data s) @ [r]" "r_time r = time s"
        using step_frame [OF Inr] by blast
      define s2 where "s2 = s1\<lparr>time := fl (time s1 + dt s1)\<rparr>"
      have s2: "dt s2 = dt s" "time s2 = fl (time s + dt s)" "tube_length s2 = tube_length s"
          "history (data s2) = history (data s) @ [r]"
        using s1 by (simp_all add: s2_def)
      have loop: "run_loop T s = run_loop T s2"
        using True Inr run_loop_iterate [of s T s1] by (simp add: s2_def)
      have room: "time s + dt s \<le> 2 ^ 52 * dt s" using True less.prems(3) by linarith
      have adv: "time s + dt s / 2 \<le> time s2"
        unfolding s2(2) using less.prems(2,1) room by (rule fl_advance(1))
      have t2: "0 \<le> time s2" using adv less.prems by linarith
      have h: "0 < dt s / 2" using less.prems by simp
      have "T - time s2 \<le> (T - time s) - dt s / 2" using adv by linarith
      then have "(T - time s2) / (dt s / 2) \<le> ((T - time s) - dt s / 2) / (dt s / 2)"
        using h by (simp only: divide_right_mono less_imp_le)
      also have "\<dots> = (T - time s) / (dt s / 2) - 1"
        using less.prems(1) by (simp add: field_simps)
      finally have "\<lceil>(T - time s2) / (dt s / 2)\<rceil> \<le> \<lceil>(T - time s) / (dt s / 2) - 1\<rceil>"
        by (rule ceiling_mono)
      then have c: "\<lceil>(T - time s2) / (dt s / 2)\<rceil> \<le> \<lceil>(T - time s) / (dt s / 2)\<rceil> - 1" by simp
      have "0 < (T - time s) / (dt s / 2)" using True h by simp
      then have "0 < \<lceil>(T - time s) / (dt s / 2)\<rceil>" by simp
      then have dec: "nat \<lceil>(T - time s2) / (dt s2 / 2)\<rceil> < nat \<lceil>(T - time s) / (dt s / 2)\<rceil>"
        using c unfolding s2(1) by linarith
      have p2: "0 < dt s2" "T + dt s2 \<le> 2 ^ 52 * dt s2" using s2 less.prems by simp_all
      obtain out where out: "run_loop T s2 = Some out"
          "case out of
              Inl e \<Rightarrow> True
            | Inr s' \<Rightarrow>
               (T \<le> time s' \<or> tube_length s' \<le> position (capsule s'))
               \<and> dt s' = dt s2 \<and> tube_length s' = tube_length s2
               \<and> (s' = s2 \<or>
                   (history (data s') \<noteq> [] \<and> r_time (last (history (data s'))) < T
                    \<and> 0 \<le> r_time (last (history (data s')))
                    \<and> time s' = fl (r_time (last (history (data s'))) + dt s2)))"
        using less.hyps [OF dec p2(1) t2 p2(2)] by blast
      show ?thesis
      proof (cases out)
        case (Inl e)
        then show ?thesis using loop out(1) by simp
      next
        case (Inr s')
        have a: "T \<le> time s' \<or> tube_length s' \<le> position (capsule s')"
            "dt s' = dt s" "tube_length s' = tube_length s"
          using out(2) Inr s2 by auto
        have "s' = s2 \<or>
                   (history (data s') \<noteq> [] \<and> r_time (last (history (data s'))) < T
                    \<and> 0 \<le> r_time (last (history (data s')))
                    \<and> time s' = fl (r_time (last (history (data s'))) + dt s))"
          using out(2) Inr s2 by simp
        then have "history (data s') \<noteq> [] \<and> r_time (last (history (data s'))) < T
                    \<and> 0 \<le> r_time (last (history (data s')))
                    \<and> time s' = fl (r_time (last (history (data s'))) + dt s)"
          using s2 s1(5) True less.prems(2) by auto
        then show ?thesis using loop out(1) Inr a by simp
      qed
    qed
  qed
qed

text \<open>
  A loop without stages around a capsule at rest, short of the end of the tube and short
  of \<open>max_time\<close>, whose clock is not moved by the rounded addition of the step: every
  iteration finds the state of the one before, with one more record, and the loop never
  exits.
\<close>

lemma step_no_stages:
  assumes "stages s = []" "0 < resistance (properties (capsule s))"
  shows "step s =
     Inr (s\<lparr>capsule := update_kinematics (physics s)
                 ((capsule s)\<lparr>current := current (capsule s) + 0.1 * (0 - current (capsule s))\<rparr>)
                 0 (dt s),
            data := (data s)\<lparr>history := history (data s) @
               [\<lparr>r_time = time s,
                 r_position = position (capsule s) + velocity (capsule s) * dt s,
                 r_velocity = velocity (capsule s),
                 r_acceleration = 0, r_force = 0,
                 r_kinetic_energy = 0.5 * mass (capsule s) * velocity (capsule s) ^ 2,
                 r_capsule_current = current (capsule s) + 0.1 * (0 - current (capsule s)),
                 r_active_stages = 0, r_total_stage_current = 0\<rparr>]\<rparr>\<rparr>)"
  using assms
  by (simp add: step_def check_stage_activations_def update_capsule_current_def
      calculate_total_force_def data_record_def update_kinematics_def update_position_def
      update_velocity_def Let_def)

lemma run_loop_stalls:
  assumes "stages s = []" "velocity (capsule s) = 0" "0 < resistance (properties (capsule s))"
    and "time s < T" "position (capsule s) < tube_length s" "fl (time s + dt s) = time s"
  shows "run_loop T s = None"
proof (cases "run_loop T s")
  case None
  then show ?thesis .
next
  case (Some y)
  let ?stalled = "\<lambda>T s. stages s = [] \<and> velocity (capsule s) = 0
          \<and> 0 < resistance (properties (capsule s))
          \<and> time s < T \<and> position (capsule s) < tube_length s \<and> fl (time s + dt s) = time s"
  have "\<not> ?stalled T s"
  proof (rule run_loop.raw_induct [where P = "\<lambda>T s y. \<not> ?stalled T s" and max_time = T
        and s = s and y = y])
    show "run_loop T s = Some y" by (rule Some)
  next
    fix loop :: "real \<Rightarrow> SimulationService \<Rightarrow> (error + SimulationService) option"
      and T s y
    assume IH: "\<And>T s y. loop T s = Some y \<Longrightarrow> \<not> ?stalled T s"
    assume body: "(if time s < T \<and> position (capsule s) < tube_length s
                   then case step s of Inl e \<Rightarrow> Some (Inl e)
                        | Inr s' \<Rightarrow> loop T (s'\<lparr>time := fl (time s' + dt s')\<rparr>)
                   else Some (Inr s)) = Some y"
    show "\<not> ?stalled T s"
    proof
      assume inv: "?stalled T s"
      define s1 where "s1 = projr (step s)"
      define s2 where "s2 = s1\<lparr>time := fl (time s1 + dt s1)\<rparr>"
      have st: "step s = Inr s1"
        using inv by (simp add: s1_def step_no_stages)
      have l: "loop T s2 = Some y"
        using body inv st by (simp add: s2_def)
      have "?stalled T s2"
        using inv unfolding s2_def s1_def
        by (simp add: step_no_stages update_kinematics_def update_position_def
            update_velocity_def Let_def)
      then show False using IH [OF l] by blast
    qed
  qed
  then show ?thesis using assms by simp
qed

lemma stalled_fields:
  "stages example_stalled_service = []"
  "velocity (capsule example_stalled_service) = 0"
  "position (capsule example_stalled_service) = 0"
  "resistance (properties (capsule example_stalled_service)) = 2.65 / 10 ^ 6"
  "tube_length example_stalled_service = 1"
  "time example_stalled_service = 1"
  "dt example_stalled_service = 1 / 2 ^ 60"
  by (simp_all add: example_stalled_service_def SimulationService_init_def example_capsule_eq)

text \<open>
  With the clock at 1 and a step of \<open>1 / 2 ^ 60\<close> the sum rounds to 1 again:
  \<^verbatim>\<open>run(2.0)\<close> does not return, although the step is positive.
\<close>

lemma run_clock_stalls:
  "0 < dt example_stalled_service \<and>
   fl (time example_stalled_service + dt example_stalled_service) = time example_stalled_service \<and>
   run 2 example_stalled_service = None"
proof -
  let ?s0 = "example_stalled_service\<lparr>data := set_initial_energy
                 (sum_list (map stored_energy (stages example_stalled_service)))
                 (data example_stalled_service)\<rparr>"
  have f: "time example_stalled_service + dt example_stalled_service = 1 + 1 / 2 ^ 60"
    by (simp only: stalled_fields)
  have st: "fl (time example_stalled_service + dt example_stalled_service)
              = time example_stalled_service"
    unfolding f by (simp only: fl_one_plus_tiny stalled_fields)
  have st0: "fl (time ?s0 + dt ?s0) = time ?s0" using st by simp
  have "run_loop 2 ?s0 = None"
    using st0 by (rule run_loop_stalls [rotated 5]) (simp_all add: stalled_fields)
  then show ?thesis
    using st by (simp add: run_def Let_def stalled_fields)
qed

lemma idle_step:
  "step (example_idle_service\<lparr>data := d, time := t\<rparr>) =
     Inr (example_idle_service\<lparr>data := d\<lparr>history := history d @
               [\<lparr>r_time = t, r_position = 0, r_velocity = 0, r_acceleration = 0, r_force = 0,
                 r_kinetic_energy = 0, r_capsule_current = 0,
                 r_active_stages = 0, r_total_stage_current = 0\<rparr>]\<rparr>, time := t\<rparr>)"
  apply (subst step_no_stages)
  apply (simp_all add: example_idle_service_def SimulationService_init_def example_capsule_eq
      update_kinematics_def update_position_def update_velocity_def PhysicsEngine_init_def)
  done

lemma idle_fields:
  "position (capsule example_idle_service) = 0"
  "tube_length example_idle_service = 1"
  "dt example_idle_service = 1 / 2"
  "stages example_idle_service = []"
  "time example_idle_service = 0"
  "data example_idle_service = \<lparr>history = [], metadata = Map.empty\<rparr>"
  by (simp_all add: example_idle_service_def SimulationService_init_def example_capsule_eq
      DataService_init_def)

lemma idle_iterate:
  "t < T \<Longrightarrow> run_loop T (example_idle_service\<lparr>data := d, time := t\<rparr>) =
     run_loop T (example_idle_service\<lparr>data := d\<lparr>history := history d @
               [\<lparr>r_time = t, r_position = 0, r_velocity = 0, r_acceleration = 0, r_force = 0,
                 r_kinetic_energy = 0, r_capsule_current = 0,
                 r_active_stages = 0, r_total_stage_current = 0\<rparr>]\<rparr>, time := fl (t + 1 / 2)\<rparr>)"
  by (subst run_loop.simps) (simp add: idle_step idle_fields)

lemma idle_exit:
  "T \<le> t \<Longrightarrow> run_loop T (example_idle_service\<lparr>data := d, time := t\<rparr>) =
     Some (Inr (example_idle_service\<lparr>data := d, time := t\<rparr>))"
  by (subst run_loop.simps) simp

lemma idle_run:
  "run (3 / 4) example_idle_service =
     Some (Inr \<lparr>final_velocity = 0, final_position = 0, total_time = 1 / 2, initial_energy = 0,
                result_history =
                  [\<lparr>r_time = 0, r_position = 0, r_velocity = 0, r_acceleration = 0, r_force = 0,
                    r_kinetic_energy = 0, r_capsule_current = 0,
                    r_active_stages = 0, r_total_stage_current = 0\<rparr>,
                   \<lparr>r_time = 1 / 2, r_position = 0, r_velocity = 0, r_acceleration = 0, r_force = 0,
                    r_kinetic_energy = 0, r_capsule_current = 0,
                    r_active_stages = 0, r_total_stage_current = 0\<rparr>]\<rparr>,
           example_idle_service\<lparr>data := \<lparr>history =
                  [\<lparr>r_time = 0, r_position = 0, r_velocity = 0, r_acceleration = 0, r_force = 0,
                    r_kinetic_energy = 0, r_capsule_current = 0,
                    r_active_stages = 0, r_total_stage_current = 0\<rparr>,
                   \<lparr>r_time = 1 / 2, r_position = 0, r_velocity = 0, r_acceleration = 0, r_force = 0,
                    r_kinetic_energy = 0, r_capsule_current = 0,
                    r_active_stages = 0, r_total_stage_current = 0\<rparr>],
               metadata = [''initial_energy'' \<mapsto> 0]\<rparr>, time := 1\<rparr>)"
proof -
  let ?d0 = "\<lparr>history = [], metadata = [''initial_energy'' \<mapsto> (0::real)]\<rparr>"
  have s0: "example_idle_service\<lparr>data := set_initial_energy
              (sum_list (map stored_energy (stages example_idle_service)))
              (data example_idle_service)\<rparr>
            = example_idle_service\<lparr>data := ?d0, time := 0\<rparr>"
    by (simp add: set_initial_energy_def example_idle_service_def
        SimulationService_init_def DataService_init_def)
  have "run_loop (3 / 4) (example_idle_service\<lparr>data := ?d0, time := 0\<rparr>) =
        Some (Inr (example_idle_service\<lparr>data := \<lparr>history =
                  [\<lparr>r_time = 0, r_position = 0, r_velocity = 0, r_acceleration = 0, r_force = 0,
                    r_kinetic_energy = 0, r_capsule_current = 0,
                    r_active_stages = 0, r_total_stage_current = 0\<rparr>,
                   \<lparr>r_time = 1 / 2, r_position = 0, r_velocity = 0, r_acceleration = 0, r_force = 0,
                    r_kinetic_energy = 0, r_capsule_current = 0,
                    r_active_stages = 0, r_total_stage_current = 0\<rparr>],
               metadata = [''initial_energy'' \<mapsto> 0]\<rparr>, time := 1\<rparr>))"
    by (simp add: idle_iterate idle_exit fl_half fl_one)
  then show ?thesis
    unfolding run_def Let_def s0 by (simp add: get_results_def)
qed

lemma finished_service:
  "example_finished_service =
     example_idle_service\<lparr>data := \<lparr>history =
                  [\<lparr>r_time = 0, r_position = 0, r_velocity = 0, r_acceleration = 0, r_force = 0,
                    r_kinetic_energy = 0, r_capsule_current = 0,
                    r_active_stages = 0, r_total_stage_current = 0\<rparr>,
                   \<lparr>r_time = 1 / 2, r_position = 0, r_velocity = 0, r_acceleration = 0, r_force = 0,
                    r_kinetic_energy = 0, r_capsule_current = 0,
                    r_active_stages = 0, r_total_stage_current = 0\<rparr>],
               metadata = [''initial_energy'' \<mapsto> 0]\<rparr>, time := 1\<rparr>"
  by (simp add: example_finished_service_def idle_run)

text \<open>
  C9 (as stated, refuted): with a time step of 1/2 and \<^verbatim>\<open>run(0.75)\<close> the loop runs
  at times 0 and 1/2 and exits with the clock at 1 (both sums are exact in floating
  point). The capsule never left position 0 in a tube of length 1, so on exit neither
  \<open>time \<le> max_time\<close> nor \<open>position \<ge> tube_length\<close> holds.
\<close>

theorem run_overshoots_max_time:
  "run (3 / 4) example_idle_service \<noteq> None \<and>
   0 < dt example_idle_service \<and>
   time (snd (the (run (3 / 4) example_idle_service))) = 1 \<and>
   position (capsule (snd (the (run (3 / 4) example_idle_service)))) = 0 \<and>
   tube_length (snd (the (run (3 / 4) example_idle_service))) = 1 \<and>
   \<not> (time (snd (the (run (3 / 4) example_idle_service))) \<le> 3 / 4 \<or>
      tube_length (snd (the (run (3 / 4) example_idle_service)))
        \<le> position (capsule (snd (the (run (3 / 4) example_idle_service)))))"
  by (simp add: idle_run) (simp add: idle_fields)

text \<open>
  C9 (amended): for every service whose clock is at or after 0, with a positive time
  step \<open>dt\<close> and \<open>max_time \<le> (2 ^ 52 - 1) * dt\<close>, \<^verbatim>\<open>run(max_time)\<close> terminates: either a
  step raises, or the loop exits and the call returns what \<^verbatim>\<open>get_results\<close> gives on
  the recorded history. When the loop exits, the clock has reached \<open>max_time\<close> or the
  capsule has reached the end of the tube. The clock may have passed \<open>max_time\<close>:
  unless no step ran, the result exists, its total time (the time of the last recorded
  step) is below \<open>max_time\<close>, and the clock is the rounded sum of that time and \<open>dt\<close>,
  less than one step and one rounding error past \<open>max_time\<close>. The clock is advanced in
  floating point; without the bound on \<open>max_time\<close> the sum can round back to the old
  time and the loop need not exit.
\<close>

theorem run_terminates:
  assumes "0 < dt s" "0 \<le> time s" "T + dt s \<le> 2 ^ 52 * dt s"
  shows "\<exists>out. run_loop T (s\<lparr>data := set_initial_energy
                     (sum_list (map stored_energy (stages s))) (data s)\<rparr>) = Some out \<and>
           (case out of
              Inl e \<Rightarrow>
                run T s = Some (Inl e, s\<lparr>data := set_initial_energy
                     (sum_list (map stored_energy (stages s))) (data s)\<rparr>)
            | Inr s' \<Rightarrow>
                run T s = Some (get_results (data s'), s')
                \<and> (T \<le> time s' \<or> tube_length s' \<le> position (capsule s'))
                \<and> (time s' = time s \<or>
                    (\<exists>r. get_results (data s') = Inr r \<and> total_time r < T
                          \<and> time s' = fl (total_time r + dt s)
                          \<and> time s' < (T + dt s) * (1 + 1 / 2 ^ 53))))"
proof -
  define s0 where "s0 = s\<lparr>data := set_initial_energy
                     (sum_list (map stored_energy (stages s))) (data s)\<rparr>"
  have p: "0 < dt s0" "0 \<le> time s0" "T + dt s0 \<le> 2 ^ 52 * dt s0"
    using assms by (simp_all add: s0_def)
  from run_loop_exits [OF p]
  obtain out where out: "run_loop T s0 = Some out"
      "case out of
              Inl e \<Rightarrow> True
            | Inr s' \<Rightarrow>
               (T \<le> time s' \<or> tube_length s' \<le> position (capsule s'))
               \<and> dt s' = dt s0 \<and> tube_length s' = tube_length s0
               \<and> (s' = s0 \<or>
                   (history (data s') \<noteq> [] \<and> r_time (last (history (data s'))) < T
                    \<and> 0 \<le> r_time (last (history (data s')))
                    \<and> time s' = fl (r_time (last (history (data s'))) + dt s0)))"
    by blast
  show ?thesis
  proof (cases out)
    case (Inl e)
    then show ?thesis using out(1) by (simp add: run_def Let_def s0_def [symmetric])
  next
    case (Inr s')
    have run: "run T s = Some (get_results (data s'), s')"
      using out(1) Inr by (simp add: run_def Let_def s0_def [symmetric])
    have ex: "T \<le> time s' \<or> tube_length s' \<le> position (capsule s')"
      using out(2) Inr by auto
    have alt: "s' = s0 \<or>
                   (history (data s') \<noteq> [] \<and> r_time (last (history (data s'))) < T
                    \<and> 0 \<le> r_time (last (history (data s')))
                    \<and> time s' = fl (r_time (last (history (data s'))) + dt s))"
      using out(2) Inr by (simp add: s0_def)
    have "time s' = time s \<or>
                    (\<exists>r. get_results (data s') = Inr r \<and> total_time r < T
                          \<and> time s' = fl (total_time r + dt s)
                          \<and> time s' < (T + dt s) * (1 + 1 / 2 ^ 53))"
    proof (cases "s' = s0")
      case True
      then show ?thesis by (simp add: s0_def)
    next
      case False
      define tl where "tl = r_time (last (history (data s')))"
      have h: "history (data s') \<noteq> []" "tl < T" "0 \<le> tl" "time s' = fl (tl + dt s)"
        using alt False by (simp_all add: tl_def)
      have room: "tl + dt s \<le> 2 ^ 52 * dt s" using h(2) assms(3) by linarith
      have "fl (tl + dt s) \<le> (tl + dt s) * (1 + 1 / 2 ^ 53)"
        using h(3) assms(1) room by (rule fl_advance(2))
      also have "\<dots> < (T + dt s) * (1 + 1 / 2 ^ 53)" using h(2) by simp
      finally have b: "time s' < (T + dt s) * (1 + 1 / 2 ^ 53)" unfolding h(4) .
      have "\<exists>r. get_results (data s') = Inr r \<and> total_time r = tl"
        using h(1) by (simp add: get_results_def Let_def tl_def)
      then show ?thesis using h b by auto
    qed
    then show ?thesis using out(1) Inr run ex unfolding s0_def by simp
  qed
qed

theorem run_terminates_witness:
  "\<exists>out. run_loop 5 (example_scenario_service\<lparr>data := set_initial_energy
                     (sum_list (map stored_energy (stages example_scenario_service)))
                     (data example_scenario_service)\<rparr>) = Some out \<and>
           (case out of
              Inl e \<Rightarrow>
                run 5 example_scenario_service =
                  Some (Inl e, example_scenario_service\<lparr>data := set_initial_energy
                     (sum_list (map stored_energy (stages example_scenario_service)))
                     (data example_scenario_service)\<rparr>)
            | Inr s' \<Rightarrow>
                run 5 example_scenario_service = Some (get_results (data s'), s')
                \<and> (5 \<le> time s' \<or> tube_length s' \<le> position (capsule s'))
                \<and> (time s' = 0 \<or>
                    (\<exists>r. get_results (data s') = Inr r \<and> total_time r < 5
                          \<and> time s' = fl (total_time r + 1 / 10 ^ 5)
                          \<and> time s' < (5 + 1 / 10 ^ 5) * (1 + 1 / 2 ^ 53))))"
proof -
  have f: "dt example_scenario_service = 1 / 10 ^ 5" "time example_scenario_service = 0"
    by (simp_all add: example_scenario_service_def SimulationService_init_def)
  have h: "0 < dt example_scenario_service" "0 \<le> time example_scenario_service"
      "5 + dt example_scenario_service \<le> 2 ^ 52 * dt example_scenario_service"
    by (simp_all add: f)
  show ?thesis
    using run_terminates [OF h] unfolding f .
qed

text \<open>
  C10 (as stated, refuted): \<^verbatim>\<open>run\<close> never clears the history. On the service that
  \<^verbatim>\<open>run(0.75)\<close> has left with two records and the clock at 1, \<^verbatim>\<open>run(0)\<close> runs no
  step, the loop returns the service as it found it, and the call returns a result, the
  one of the earlier run, instead of raising.
\<close>

theorem rerun_without_steps_returns_result:
  "run_loop 0 (example_finished_service\<lparr>data := set_initial_energy
       (sum_list (map stored_energy (stages example_finished_service)))
       (data example_finished_service)\<rparr>)
     = Some (Inr example_finished_service) \<and>
   run 0 example_finished_service =
     Some (Inr \<lparr>final_velocity = 0, final_position = 0, total_time = 1 / 2, initial_energy = 0,
                result_history =
                  [\<lparr>r_time = 0, r_position = 0, r_velocity = 0, r_acceleration = 0, r_force = 0,
                    r_kinetic_energy = 0, r_capsule_current = 0,
                    r_active_stages = 0, r_total_stage_current = 0\<rparr>,
                   \<lparr>r_time = 1 / 2, r_position = 0, r_velocity = 0, r_acceleration = 0, r_force = 0,
                    r_kinetic_energy = 0, r_capsule_current = 0,
                    r_active_stages = 0, r_total_stage_current = 0\<rparr>]\<rparr>,
           example_finished_service)"
proof -
  have s0: "example_finished_service\<lparr>data := set_initial_energy
       (sum_list (map stored_energy (stages example_finished_service)))
       (data example_finished_service)\<rparr> = example_finished_service"
    by (simp add: finished_service idle_fields set_initial_energy_def)
  have loop: "run_loop 0 example_finished_service = Some (Inr example_finished_service)"
    by (rule run_loop_exit_now) (simp add: finished_service)
  show ?thesis
    unfolding run_def Let_def s0 loop
    by (simp add: finished_service get_results_def)
qed

text \<open>
  C10 (amended): on a service whose clock is at 0 and whose history is empty (as the
  constructor and \<^verbatim>\<open>reset\<close> leave it), \<^verbatim>\<open>run\<close> with \<open>max_time \<le> 0\<close>, or with the
  capsule already at or past the end of the tube, leaves the loop at once (the service is
  returned as it entered the loop, nothing recorded) and raises the error of
  \<^verbatim>\<open>get_results\<close> on an empty history.
\<close>

theorem run_without_steps_raises:
  assumes "time s = 0" "history (data s) = []"
      and "T \<le> 0 \<or> tube_length s \<le> position (capsule s)"
  shows "run_loop T (s\<lparr>data := set_initial_energy
                     (sum_list (map stored_energy (stages s))) (data s)\<rparr>)
           = Some (Inr (s\<lparr>data := set_initial_energy
                     (sum_list (map stored_energy (stages s))) (data s)\<rparr>))
         \<and> run T s = Some (Inl (ValueError ''No data collected - cannot generate results''),
                           s\<lparr>data := set_initial_energy
                     (sum_list (map stored_energy (stages s))) (data s)\<rparr>)"
proof -
  define s0 where "s0 = s\<lparr>data := set_initial_energy
                     (sum_list (map stored_energy (stages s))) (data s)\<rparr>"
  have "\<not> (time s0 < T \<and> position (capsule s0) < tube_length s0)"
    using assms by (auto simp: s0_def)
  then have loop: "run_loop T s0 = Some (Inr s0)" by (rule run_loop_exit_now)
  have "history (data s0) = []" using assms by (simp add: s0_def set_initial_energy_def)
  then have "get_results (data s0) = Inl (ValueError ''No data collected - cannot generate results'')"
    by (simp add: get_results_def)
  then show ?thesis using loop by (simp add: run_def Let_def s0_def [symmetric])
qed

theorem run_without_steps_raises_witness:
  "run 0 example_idle_service =
     Some (Inl (ValueError ''No data collected - cannot generate results''),
           example_idle_service\<lparr>data := set_initial_energy 0 (data example_idle_service)\<rparr>)
   \<and> run 5 (example_idle_service\<lparr>capsule := update_position 1 example_capsule\<rparr>) =
     Some (Inl (ValueError ''No data collected - cannot generate results''),
           example_idle_service\<lparr>capsule := update_position 1 example_capsule,
              data := set_initial_energy 0 (data example_idle_service)\<rparr>)"
  using run_without_steps_raises [of example_idle_service 0]
        run_without_steps_raises [of "example_idle_service\<lparr>capsule := update_position 1 example_capsule\<rparr>" 5]
  by (simp add: example_idle_service_def SimulationService_init_def DataService_init_def
      update_position_def)

subsection \<open>The discharge current and its derivative\<close>

lemma inductance_fields:
  "capacitance (snd (inductance s)) = capacitance s"
  "voltage (snd (inductance s)) = voltage s"
  "properties (snd (inductance s)) = properties s"
  "is_active (snd (inductance s)) = is_active s"
  "activation_time (snd (inductance s)) = activation_time s"
  by (simp_all add: inductance_def Let_def split: option.splits)

lemma get_current_value:
  "fst (get_current s t) = spec_get_current s t"
  by (simp add: get_current_def spec_get_current_def stage_waveform_def spec_waveform_def
      spec_omega_0_def spec_alpha_def spec_omega_d_def stage_L_def Let_def inductance_fields
      case_prod_beta split: option.splits)

lemma get_current_nonneg: "0 \<le> fst (get_current s t)"
  by (simp add: get_current_value spec_get_current_def split: option.splits)

lemma get_current_derivative_value:
  assumes "is_active s" "activation_time s = Some t0" "t0 \<le> t"
  shows "fst (get_current_derivative s t) =
     (let L = stage_L s; C = capacitance s; R = resistance (properties s); V = voltage s;
          a = spec_alpha R L; w = spec_omega_d L C R; x = t - t0
      in if a < spec_omega_0 L C then (V / (w * L)) * exp (- a * x) * (w * cos (w * x) - a * sin (w * x))
         else if a = spec_omega_0 L C then (V / L) * exp (- a * x) * (1 - a * x)
         else 0)"
  using assms
  by (simp add: get_current_derivative_def case_prod_beta
      spec_omega_0_def spec_alpha_def spec_omega_d_def stage_L_def Let_def inductance_fields)

lemma deriv_underdamped:
  "((\<lambda>u. A * exp (- a * (u - t0)) * sin (w * (u - t0))) has_real_derivative
      A * exp (- a * (t - t0)) * (w * cos (w * (t - t0)) - a * sin (w * (t - t0)))) (at t)"
  by (auto intro!: derivative_eq_intros simp: algebra_simps)

lemma deriv_critical:
  "((\<lambda>u. B * (u - t0) * exp (- a * (u - t0))) has_real_derivative
      B * exp (- a * (t - t0)) * (1 - a * (t - t0))) (at t)"
  by (auto intro!: derivative_eq_intros simp: algebra_simps)

lemma waveform_derivative:
  assumes "is_active s" "activation_time s = Some t0" "t0 \<le> t"
  shows "((\<lambda>u. stage_waveform s (u - t0)) has_real_derivative fst (get_current_derivative s t)) (at t)"
proof -
  let ?L = "stage_L s" and ?C = "capacitance s" and ?R = "resistance (properties s)"
  consider (under) "spec_alpha ?R ?L < spec_omega_0 ?L ?C"
    | (crit) "spec_alpha ?R ?L = spec_omega_0 ?L ?C"
    | (over) "spec_omega_0 ?L ?C < spec_alpha ?R ?L"
    by linarith
  then show ?thesis
  proof cases
    case under
    have "stage_waveform s = (\<lambda>x. (voltage s / (spec_omega_d ?L ?C ?R * ?L))
             * exp (- spec_alpha ?R ?L * x) * sin (spec_omega_d ?L ?C ?R * x))"
      using under by (simp add: stage_waveform_def spec_waveform_def fun_eq_iff)
    moreover have "fst (get_current_derivative s t) =
        (voltage s / (spec_omega_d ?L ?C ?R * ?L)) * exp (- spec_alpha ?R ?L * (t - t0))
          * (spec_omega_d ?L ?C ?R * cos (spec_omega_d ?L ?C ?R * (t - t0))
             - spec_alpha ?R ?L * sin (spec_omega_d ?L ?C ?R * (t - t0)))"
      using under by (simp add: get_current_derivative_value [OF assms] Let_def)
    ultimately show ?thesis by (simp only: deriv_underdamped)
  next
    case crit
    have "stage_waveform s = (\<lambda>x. (voltage s / ?L) * x * exp (- spec_alpha ?R ?L * x))"
      using crit by (simp add: stage_waveform_def spec_waveform_def fun_eq_iff)
    moreover have "fst (get_current_derivative s t) =
        (voltage s / ?L) * exp (- spec_alpha ?R ?L * (t - t0)) * (1 - spec_alpha ?R ?L * (t - t0))"
      using crit by (simp add: get_current_derivative_value [OF assms] Let_def)
    ultimately show ?thesis by (simp only: deriv_critical)
  next
    case over
    have "stage_waveform s = (\<lambda>x. 0)"
      using over by (simp add: stage_waveform_def spec_waveform_def fun_eq_iff)
    moreover have "fst (get_current_derivative s t) = 0"
      using over by (simp add: get_current_derivative_value [OF assms] Let_def)
    ultimately show ?thesis by simp
  qed
qed


lemma ex_angle:
  assumes "0 \<le> a" "0 < w"
  shows "\<exists>e::real. 0 < e \<and> e < pi / 2 \<and> a * sin e < w * cos e"
proof (cases "a = 0")
  case True
  have "0 < cos (pi / 4)" by (simp add: cos_45)
  then show ?thesis using True assms by (intro exI [of _ "pi / 4"]) simp
next
  case False
  then have a: "0 < a" using assms by simp
  define e where "e = arctan (w / (2 * a))"
  have e: "0 < e" "e < pi / 2"
    unfolding e_def using a assms arctan_ubound [of "w / (2 * a)"]
    by (simp add: zero_less_arctan_iff, blast)
  have c: "0 < cos e" using e by (simp add: cos_gt_zero)
  have "tan e = w / (2 * a)" by (simp add: e_def tan_arctan)
  then have "sin e = (w / (2 * a)) * cos e"
    using c by (simp add: tan_def field_simps)
  then have "a * sin e = (w / 2) * cos e" using a by (simp add: field_simps)
  also have "\<dots> < w * cos e" using c assms by simp
  finally show ?thesis using e by blast
qed

lemma omega_d_pos:
  assumes "0 \<le> spec_alpha R L" "spec_alpha R L < spec_omega_0 L C"
  shows "0 < spec_omega_d L C R"
proof -
  have "(spec_alpha R L) ^ 2 < (spec_omega_0 L C) ^ 2"
    using assms by (simp add: power_strict_mono)
  then show ?thesis by (simp add: spec_omega_d_def)
qed

lemma clamped_with_negative_derivative:
  assumes act: "is_active s" "activation_time s = Some t0"
    and pos: "0 < voltage s" "0 < stage_L s" "0 \<le> resistance (properties s)"
    and under: "spec_alpha (resistance (properties s)) (stage_L s)
                  < spec_omega_0 (stage_L s) (capacitance s)"
  shows "\<exists>t'\<ge>t0. stage_waveform s (t' - t0) < 0 \<and> fst (get_current s t') = 0
            \<and> fst (get_current_derivative s t') < 0"
proof -
  let ?L = "stage_L s" and ?C = "capacitance s" and ?R = "resistance (properties s)"
  define a where "a = spec_alpha ?R ?L"
  define w where "w = spec_omega_d ?L ?C ?R"
  have a: "0 \<le> a" using pos by (simp add: a_def spec_alpha_def)
  have w: "0 < w" unfolding w_def using omega_d_pos a under by (simp add: a_def)
  obtain e where e: "0 < e" "e < pi / 2" "a * sin e < w * cos e"
    using ex_angle [OF a w] by blast
  define x where "x = (pi + e) / w"
  have x: "0 < x" "w * x = e + pi" using w e by (simp_all add: x_def)
  define A where "A = voltage s / (w * ?L)"
  have A: "0 < A" using pos w by (simp add: A_def)
  have "e < pi" using e by simp
  then have sin_e: "0 < sin e" using e(1) by (rule sin_gt_zero [rotated])
  have wave: "stage_waveform s x = A * exp (- a * x) * sin (w * x)"
    using under by (simp add: stage_waveform_def spec_waveform_def a_def w_def A_def)
  have "A * exp (- a * x) * sin (w * x) = - (A * exp (- a * x) * sin e)"
    by (simp add: x(2))
  moreover have "0 < A * exp (- a * x) * sin e" using A sin_e by simp
  ultimately have neg: "stage_waveform s x < 0" using wave by simp
  have t': "t0 \<le> t0 + x" using x by simp
  have cur: "fst (get_current s (t0 + x)) = 0"
    using act neg x by (simp add: get_current_value spec_get_current_def)
  have "fst (get_current_derivative s (t0 + x)) =
          A * exp (- a * x) * (w * cos (w * x) - a * sin (w * x))"
    using under by (simp add: get_current_derivative_value [OF act t'] Let_def a_def w_def A_def)
  also have "\<dots> = - (A * exp (- a * x) * (w * cos e - a * sin e))"
    by (simp add: x(2) algebra_simps)
  finally have d: "fst (get_current_derivative s (t0 + x)) =
      - (A * exp (- a * x) * (w * cos e - a * sin e))" .
  have "0 < A * exp (- a * x) * (w * cos e - a * sin e)" using A e by simp
  then have "fst (get_current_derivative s (t0 + x)) < 0" using d by simp
  then show ?thesis using t' neg cur by (intro exI [of _ "t0 + x"]) simp
qed


lemma omega_0_sq: "0 < L \<Longrightarrow> 0 < C \<Longrightarrow> (spec_omega_0 L C) ^ 2 = 1 / (L * C)"
  by (simp add: spec_omega_0_def power_divide)

lemma underdamped_if:
  assumes "0 < L" "0 < C" "0 \<le> R" "R ^ 2 * C < 4 * L"
  shows "spec_alpha R L < spec_omega_0 L C"
proof -
  have a2: "(spec_alpha R L) ^ 2 = R ^ 2 / (4 * L ^ 2)"
    by (simp add: spec_alpha_def power_divide power_mult_distrib)
  have "R ^ 2 < 4 * L / C" using assms by (simp add: pos_less_divide_eq)
  also have "4 * L / C = (1 / (L * C)) * (4 * L ^ 2)"
    using assms by (simp add: power2_eq_square)
  finally have "R ^ 2 / (4 * L ^ 2) < 1 / (L * C)"
    using assms by (simp add: pos_divide_less_eq)
  then have "(spec_alpha R L) ^ 2 < (spec_omega_0 L C) ^ 2"
    using assms by (simp add: omega_0_sq a2)
  moreover have "0 \<le> spec_omega_0 L C" using assms by (simp add: spec_omega_0_def)
  ultimately show ?thesis by (rule power2_less_imp_less)
qed

lemma example_active_fields:
  "is_active example_active_stage"
  "activation_time example_active_stage = Some 0"
  "voltage example_active_stage = 400"
  "capacitance example_active_stage = 1 / 1000"
  "resistance (properties example_active_stage) = 37800 / 165649"
  "stage_L example_active_stage = 81 / 500000 * pi ^ 2"
  by (simp_all add: example_active_stage_def activate_def example_stage_eq copper_resistance_value
      stage_L_def inductance_def calculate_inductance_def Let_def power2_eq_square)

lemma example_underdamped:
  "spec_alpha (resistance (properties example_active_stage)) (stage_L example_active_stage)
     < spec_omega_0 (stage_L example_active_stage) (capacitance example_active_stage)"
proof -
  have p: "(4::real) \<le> pi ^ 2"
    using pi_ge_two power_mono [of 2 pi 2] by simp
  have "(37800 / 165649) ^ 2 * (1 / 1000) < 4 * (81 / 500000 * (4::real))"
    by (simp add: power2_eq_square)
  also have "\<dots> \<le> 4 * (81 / 500000 * pi ^ 2)" using p by simp
  finally show ?thesis
    unfolding example_active_fields by (intro underdamped_if) simp_all
qed

lemma stage_L_fresh: "inductance_memo s = None \<Longrightarrow> stage_L s = calculate_inductance s"
  by (simp add: stage_L_def inductance_def Let_def)

text \<open>
  C7: for every constructed stage and every time, \<^verbatim>\<open>get_current\<close> returns what the
  specification words: 0 when the stage is inactive (or was never activated) or the time
  precedes the activation; otherwise the underdamped waveform when \<open>\<alpha> < \<omega>\<^sub>0\<close>, the
  critically damped one when \<open>\<alpha> = \<omega>\<^sub>0\<close>, 0 when \<open>\<alpha> > \<omega>\<^sub>0\<close>, clamped at 0 from
  below, with the solenoid inductance of the stage for \<open>L\<close>. In particular the value is
  never negative.
\<close>

theorem get_current_matches_spec:
  assumes "well_formed_stage s"
  shows "fst (get_current s t) = spec_get_current s t \<and> 0 \<le> fst (get_current s t)
         \<and> stage_L s = calculate_inductance s \<and> well_formed_stage (snd (get_current s t))"
  using get_current_value [of s t] get_current_nonneg [of s t] stage_L_well_formed [OF assms]
    get_current_well_formed [OF assms, of t]
  by simp

lemma example_waveform:
  "stage_waveform example_active_stage x =
     400 / (spec_omega_d (81 / 500000 * pi ^ 2) (1 / 1000) (37800 / 165649)
              * (81 / 500000 * pi ^ 2))
       * exp (- spec_alpha (37800 / 165649) (81 / 500000 * pi ^ 2) * x)
       * sin (spec_omega_d (81 / 500000 * pi ^ 2) (1 / 1000) (37800 / 165649) * x)"
  using example_underdamped
  by (simp add: stage_waveform_def spec_waveform_def example_active_fields)

lemma example_stage_well_formed:
  "well_formed_stage example_stage" "well_formed_stage example_active_stage"
proof -
  show "well_formed_stage example_stage"
    using example_stage_init by (rule stage_init_well_formed)
  then show "well_formed_stage example_active_stage"
    unfolding example_active_stage_def by (rule activate_well_formed)
qed

theorem get_current_matches_spec_witness:
  "fst (get_current example_stage 5) = 0 \<and>
   fst (get_current example_active_stage (- 1)) = 0 \<and>
   fst (get_current example_active_stage 0) = 0 \<and>
   fst (get_current example_active_stage (1 / 1000)) =
     max 0 (400 / (spec_omega_d (81 / 500000 * pi ^ 2) (1 / 1000) (37800 / 165649)
              * (81 / 500000 * pi ^ 2))
       * exp (- spec_alpha (37800 / 165649) (81 / 500000 * pi ^ 2) * (1 / 1000))
       * sin (spec_omega_d (81 / 500000 * pi ^ 2) (1 / 1000) (37800 / 165649) * (1 / 1000)))"
  using get_current_matches_spec [OF example_stage_well_formed(1), of 5]
        get_current_matches_spec [OF example_stage_well_formed(2), of "- 1"]
        get_current_matches_spec [OF example_stage_well_formed(2), of 0]
        get_current_matches_spec [OF example_stage_well_formed(2), of "1 / 1000"]
  by (simp add: spec_get_current_def example_active_fields example_stage_eq example_waveform)

text \<open>
  C8: for a constructed stage with a positive capacitance that is active, and a time at
  or after the activation, \<^verbatim>\<open>get_current_derivative\<close> returns the derivative, at that
  time, of the unclamped waveform of the stage's branch. No clamp is applied to it: when
  the stage is underdamped and its voltage positive there is a time after the activation
  where the waveform is negative, so that \<^verbatim>\<open>get_current\<close> returns the clamped 0,
  while the derivative returned is negative.
\<close>

theorem derivative_is_unclamped:
  assumes "well_formed_stage s" "0 < capacitance s"
    and "is_active s" "activation_time s = Some t0" "t0 \<le> t"
  shows "((\<lambda>u. stage_waveform s (u - t0)) has_real_derivative fst (get_current_derivative s t)) (at t)
       \<and> (0 < voltage s
            \<and> spec_alpha (resistance (properties s)) (stage_L s)
                  < spec_omega_0 (stage_L s) (capacitance s)
          \<longrightarrow> (\<exists>t'\<ge>t0. stage_waveform s (t' - t0) < 0 \<and> fst (get_current s t') = 0
                        \<and> fst (get_current_derivative s t') < 0))"
proof -
  have "0 < stage_L s" using assms(1) by (rule stage_L_pos)
  moreover have "0 \<le> resistance (properties s)"
    using assms(1) by (simp add: well_formed_stage_def)
  ultimately show ?thesis
    using waveform_derivative [OF assms(3-5)] clamped_with_negative_derivative [OF assms(3,4)]
    by blast
qed

theorem derivative_is_unclamped_witness:
  "((\<lambda>u. stage_waveform example_active_stage (u - 0)) has_real_derivative
      fst (get_current_derivative example_active_stage (1 / 1000))) (at (1 / 1000))
   \<and> (\<exists>t'\<ge>0. stage_waveform example_active_stage (t' - 0) < 0
              \<and> fst (get_current example_active_stage t') = 0
              \<and> fst (get_current_derivative example_active_stage t') < 0)"
proof -
  have "(0::real) \<le> 1 / 1000" "0 < capacitance example_active_stage"
    by (simp_all add: example_active_fields)
  from derivative_is_unclamped [OF example_stage_well_formed(2) this(2)
      example_active_fields(1,2) this(1)]
  show ?thesis using example_underdamped by (simp add: example_active_fields)
qed

subsection \<open>Mutual inductance against distance\<close>

lemma mu_0_pos: "0 < mu_0 PhysicsEngine_init"
  by (simp add: PhysicsEngine_init_def)

lemma near_coefficient_pos:
  assumes "valid_properties (properties a)" "valid_properties (properties b)"
  shows "0 < mu_0 PhysicsEngine_init * sqrt (diameter (properties a) / 2 * (diameter (properties b) / 2))
           * sqrt (of_int (turns (properties a) * turns (properties b)))"
proof -
  have "0 < turns (properties a) * turns (properties b)"
    using assms by (simp add: valid_properties_def)
  then have "(0::real) < of_int (turns (properties a) * turns (properties b))"
    by (simp only: of_int_0_less_iff)
  moreover have "0 < diameter (properties a) / 2 * (diameter (properties b) / 2)"
    using assms by (simp add: valid_properties_def)
  ultimately show ?thesis using mu_0_pos by simp
qed

lemma far_coefficient_pos:
  assumes "valid_properties (properties a)" "valid_properties (properties b)"
  shows "0 < mu_0 PhysicsEngine_init * pi * (diameter (properties a) / 2) ^ 2
           * (diameter (properties b) / 2) ^ 2
           * sqrt (of_int (turns (properties a) * turns (properties b)))"
proof -
  have "0 < turns (properties a) * turns (properties b)"
    using assms by (simp add: valid_properties_def)
  then have "(0::real) < of_int (turns (properties a) * turns (properties b))"
    by (simp only: of_int_0_less_iff)
  moreover have "0 < diameter (properties a)" "0 < diameter (properties b)"
    using assms by (simp_all add: valid_properties_def)
  ultimately show ?thesis using mu_0_pos by simp
qed

lemma near_decreasing:
  assumes v: "valid_properties (properties a)" "valid_properties (properties b)"
    and d: "0 \<le> d1" "d1 < d2" "d2 < max (length_m (properties a)) (length_m (properties b))"
  shows "calculate_overlapping_inductance PhysicsEngine_init a b d2
           < calculate_overlapping_inductance PhysicsEngine_init a b d1"
proof -
  let ?m = "max (length_m (properties a)) (length_m (properties b))"
  have m: "0 < ?m" using d by linarith
  have "d1 / ?m < d2 / ?m" using d m by (simp add: divide_strict_right_mono)
  moreover have "d2 / ?m < 1" using d m by simp
  ultimately have "max 0 (1 - d2 / ?m) < max 0 (1 - d1 / ?m)" by simp
  then show ?thesis
    unfolding calculate_overlapping_inductance_def Let_def
    using near_coefficient_pos [OF v] by (rule_tac mult_strict_left_mono)
qed

lemma far_decreasing:
  assumes v: "valid_properties (properties a)" "valid_properties (properties b)"
    and d: "0 < d1" "d1 < d2"
  shows "calculate_far_field_inductance PhysicsEngine_init a b d2
           < calculate_far_field_inductance PhysicsEngine_init a b d1"
proof -
  have "d1 ^ 3 < d2 ^ 3" using d by (simp add: power_strict_mono)
  moreover have "0 < d1 ^ 3" "0 < d2 ^ 3" using d by simp_all
  then have "0 < d2 ^ 3 * d1 ^ 3" by simp
  ultimately show ?thesis
    unfolding calculate_far_field_inductance_def Let_def
    using far_coefficient_pos [OF v] by (rule_tac divide_strict_left_mono)
qed

text \<open>
  Inside one branch the ordering holds: for two valid elements (turns, diameter and
  length positive) and distances \<open>0 \<le> d\<^sub>1 < d\<^sub>2\<close> that are both below the larger
  length (near field) or both at or above it (far field), the mutual inductance at
  \<open>d\<^sub>1\<close> is strictly greater than at \<open>d\<^sub>2\<close>, in exact arithmetic.
\<close>

lemma mutual_inductance_decreasing_within_branch:
  assumes "valid_properties (properties a)" "valid_properties (properties b)"
    and "0 \<le> d1" "d1 < d2"
    and "d2 < max (length_m (properties a)) (length_m (properties b))
         \<or> max (length_m (properties a)) (length_m (properties b)) \<le> d1"
  shows "\<exists>m1 m2. calculate_mutual_inductance PhysicsEngine_init a b d1 = Inr m1
           \<and> calculate_mutual_inductance PhysicsEngine_init a b d2 = Inr m2 \<and> m2 < m1"
proof -
  let ?m = "max (length_m (properties a)) (length_m (properties b))"
  have m: "0 < ?m" using assms(1) by (simp add: valid_properties_def less_max_iff_disj)
  from assms(5) show ?thesis
  proof
    assume near: "d2 < ?m"
    then show ?thesis
      using near_decreasing [OF assms(1-4) near] assms(3,4)
      by (simp add: calculate_mutual_inductance_def)
  next
    assume far: "?m \<le> d1"
    then have d1: "0 < d1" using m by linarith
    have n1: "\<not> d1 < ?m" "\<not> d2 < ?m" "\<not> d1 < 0" "\<not> d2 < 0"
      using far assms(4) d1 by linarith+
    show ?thesis
      using far_decreasing [OF assms(1,2) d1 assms(4)] n1
      by (simp only: calculate_mutual_inductance_def if_False sum.inject simp_thms ex_simps)
  qed
qed


lemma example_valid:
  "valid_properties (properties example_capsule)" "valid_properties (properties example_stage)"
  by (simp_all add: valid_properties_def example_capsule_eq example_stage_eq)

lemma example_near_value:
  "calculate_mutual_inductance PhysicsEngine_init example_capsule example_stage 0.04 =
     Inr (mu_0 PhysicsEngine_init * sqrt (0.0415 * 0.045) * sqrt 100 * (1 / 5))"
  by (simp add: calculate_mutual_inductance_def calculate_overlapping_inductance_def Let_def
      example_capsule_eq example_stage_eq)

lemma example_far_value:
  "calculate_mutual_inductance PhysicsEngine_init example_capsule example_stage 0.05 =
     Inr (mu_0 PhysicsEngine_init * pi * 0.0415 ^ 2 * 0.045 ^ 2 * sqrt 100 / 0.05 ^ 3)"
  by (simp add: calculate_mutual_inductance_def calculate_far_field_inductance_def Let_def
      example_capsule_eq example_stage_eq)

lemma example_near_less_far:
  "mu_0 PhysicsEngine_init * sqrt (0.0415 * 0.045) * sqrt 100 * (1 / 5)
     < mu_0 PhysicsEngine_init * pi * 0.0415 ^ 2 * 0.045 ^ 2 * sqrt 100 / 0.05 ^ 3"
proof -
  let ?k = "mu_0 PhysicsEngine_init * sqrt 100"
  have k: "0 < ?k" using mu_0_pos by simp
  have "sqrt (0.0415 * 0.045) < sqrt (0.05 ^ 2)"
    by (simp only: real_sqrt_less_iff) (simp add: power2_eq_square)
  then have s: "sqrt (0.0415 * 0.045) < 0.05" by simp
  have "sqrt (0.0415 * 0.045) * (1 / 5) < 0.05 * (1 / 5)" using s by simp
  also have "\<dots> < 2 * (0.0415 ^ 2 * 0.045 ^ 2 / 0.05 ^ 3)" by (simp add: power2_eq_square power3_eq_cube)
  also have "\<dots> \<le> pi * (0.0415 ^ 2 * 0.045 ^ 2 / 0.05 ^ 3)"
    using pi_ge_two by (rule mult_right_mono) simp
  finally have "?k * (sqrt (0.0415 * 0.045) * (1 / 5)) < ?k * (pi * (0.0415 ^ 2 * 0.045 ^ 2 / 0.05 ^ 3))"
    using k by (simp only: mult_less_cancel_left_pos)
  then show ?thesis by (simp only: mult_ac times_divide_eq_right)
qed

text \<open>
  C1 (the code departs from the claim): on the fixture capsule and stage the larger
  length is 0.05. At distance 0.04 the near-field formula applies, at 0.05 the far-field
  one, and the result at 0.05 is the greater of the two, where the claim wants the
  smaller, as do the unit tests that compare a near-field with a far-field distance
  (\<^verbatim>\<open>inductance decreases with distance\<close>, \<^verbatim>\<open>Should be larger than far-field case\<close>):
  the near-field formula falls to 0 at the boundary, the far-field formula starts there
  well above 0.
\<close>

theorem mutual_inductance_rises_across_boundary:
  "\<not> isl (calculate_mutual_inductance PhysicsEngine_init example_capsule example_stage 0.04) \<and>
   \<not> isl (calculate_mutual_inductance PhysicsEngine_init example_capsule example_stage 0.05) \<and>
   projr (calculate_mutual_inductance PhysicsEngine_init example_capsule example_stage 0.04)
     < projr (calculate_mutual_inductance PhysicsEngine_init example_capsule example_stage 0.05)"
  unfolding example_near_value example_far_value
  using example_near_less_far by simp

text \<open>The distances that the unit tests use inside one branch, on the fixture.\<close>

lemma mutual_inductance_decreasing_on_fixture:
  "(\<exists>m1 m2. calculate_mutual_inductance PhysicsEngine_init example_capsule example_stage 0.01 = Inr m1
      \<and> calculate_mutual_inductance PhysicsEngine_init example_capsule example_stage 0.02 = Inr m2
      \<and> m2 < m1) \<and>
   (\<exists>m1 m2. calculate_mutual_inductance PhysicsEngine_init example_capsule example_stage 0.1 = Inr m1
      \<and> calculate_mutual_inductance PhysicsEngine_init example_capsule example_stage 0.2 = Inr m2
      \<and> m2 < m1)"
proof -
  have n: "(0::real) \<le> 0.01" "(0.01::real) < 0.02"
      "0.02 < max (length_m (properties example_capsule)) (length_m (properties example_stage))
         \<or> max (length_m (properties example_capsule)) (length_m (properties example_stage)) \<le> 0.01"
    by (simp_all add: example_capsule_eq example_stage_eq)
  have f: "(0::real) \<le> 0.1" "(0.1::real) < 0.2"
      "0.2 < max (length_m (properties example_capsule)) (length_m (properties example_stage))
         \<or> max (length_m (properties example_capsule)) (length_m (properties example_stage)) \<le> 0.1"
    by (simp_all add: example_capsule_eq example_stage_eq)
  show ?thesis
    using mutual_inductance_decreasing_within_branch [OF example_valid n]
          mutual_inductance_decreasing_within_branch [OF example_valid f]
    by blast
qed

subsection \<open>The sign of the capsule current\<close>

lemma pi_ge_three: "3 \<le> pi"
proof -
  have "sin (pi / 6) \<le> pi / 6" by (rule sin_x_le_x) simp
  then show ?thesis by (simp add: sin_30)
qed

lemma cos_neg_second_quadrant:
  assumes "pi / 2 < x" "x < pi"
  shows "cos x < 0"
proof -
  have "0 < cos (pi - x)" using assms by (intro cos_gt_zero) simp_all
  then show ?thesis by simp
qed

lemma cmi_properties_only:
  "properties a = properties a' \<Longrightarrow> properties b = properties b' \<Longrightarrow>
   calculate_mutual_inductance e a b d = calculate_mutual_inductance e a' b' d"
  by (simp add: calculate_mutual_inductance_def calculate_overlapping_inductance_def
      calculate_far_field_inductance_def)

lemma get_current_stage_fields:
  "properties (snd (get_current s t)) = properties s"
  "capacitance (snd (get_current s t)) = capacitance s"
  "voltage (snd (get_current s t)) = voltage s"
  "is_active (snd (get_current s t)) = is_active s"
  "activation_time (snd (get_current s t)) = activation_time s"
  "stage_L (snd (get_current s t)) = stage_L s"
  by (simp_all add: get_current_def stage_L_def inductance_def Let_def case_prod_beta
      split: option.splits)

lemma get_current_derivative_stage_fields:
  "properties (snd (get_current_derivative s t)) = properties s"
  by (simp_all add: get_current_derivative_def stage_L_def inductance_def Let_def case_prod_beta
      split: option.splits)

lemma derivative_after_current:
  "fst (get_current_derivative (snd (get_current s u)) t) = fst (get_current_derivative s t)"
proof (cases "activation_time s")
  case None
  then show ?thesis by (simp add: get_current_derivative_def get_current_stage_fields)
next
  case (Some t0)
  show ?thesis
  proof (cases "is_active s \<and> t0 \<le> t")
    case True
    then have a: "is_active s" "activation_time s = Some t0" "t0 \<le> t" using Some by simp_all
    have b: "is_active (snd (get_current s u))" "activation_time (snd (get_current s u)) = Some t0"
      using a by (simp_all add: get_current_stage_fields)
    show ?thesis
      unfolding get_current_derivative_value [OF a] get_current_derivative_value [OF b a(3)]
      by (simp add: get_current_stage_fields)
  next
    case False
    then show ?thesis using Some
      by (auto simp: get_current_derivative_def get_current_stage_fields)
  qed
qed


lemma induced_emf_single_stage:
  assumes "is_active st" "velocity (capsule s) = 0"
  shows "\<exists>m sts'. calculate_mutual_inductance (physics s) st (capsule s)
                 (max 0.001 (abs (position (capsule s) - position_m (properties st)))) = Inr m
           \<and> induced_emf_loop s 0 [st] = Inr (m * fst (get_current_derivative st (time s)), sts')"
proof -
  let ?d = "max 0.001 (abs (position (capsule s) - position_m (properties st)))"
  let ?st1 = "snd (get_current st (time s))"
  let ?st2 = "snd (get_current_derivative ?st1 (time s))"
  obtain m where m: "calculate_mutual_inductance (physics s) st (capsule s) ?d = Inr m"
    using cmi_nonneg [OF max_floor_nonneg, of "physics s" st "capsule s"] by blast
  have m1: "calculate_mutual_inductance (physics s) ?st1 (capsule s) ?d = Inr m"
    using m cmi_properties_only [of ?st1 st "capsule s" "capsule s" "physics s" ?d]
    by (simp add: get_current_stage_fields)
  obtain g where g: "calculate_mutual_inductance_gradient s ?st2 ?d = Inr g"
    using gradient_ok by blast
  have "induced_emf_loop s 0 [st] =
          Inr (m * fst (get_current_derivative st (time s)), [?st2])"
    using assms m1 g
    by (simp add: Let_def case_prod_beta derivative_after_current)
  then show ?thesis using m by blast
qed

lemma update_single_stage:
  assumes "stages s = [st]" "is_active st" "velocity (capsule s) = 0"
      "0 < resistance (properties (capsule s))"
  shows "\<exists>m s'. calculate_mutual_inductance (physics s) st (capsule s)
                 (max 0.001 (abs (position (capsule s) - position_m (properties st)))) = Inr m
           \<and> update_capsule_current s = Inr s'
           \<and> current (capsule s') = current (capsule s)
                + 0.1 * (m * fst (get_current_derivative st (time s))
                           / resistance (properties (capsule s)) - current (capsule s))"
proof -
  obtain m sts' where m: "calculate_mutual_inductance (physics s) st (capsule s)
                 (max 0.001 (abs (position (capsule s) - position_m (properties st)))) = Inr m"
     "induced_emf_loop s 0 [st] = Inr (m * fst (get_current_derivative st (time s)), sts')"
    using induced_emf_single_stage [OF assms(2,3)] by blast
  show ?thesis
    using m assms(1,4) by (simp add: update_capsule_current_def Let_def)
qed

lemma derivative_negative_after_peak:
  assumes act: "is_active s" "activation_time s = Some t0" "t0 \<le> t"
    and pos: "0 < voltage s" "0 < stage_L s" "0 \<le> resistance (properties s)"
    and under: "spec_alpha (resistance (properties s)) (stage_L s)
                  < spec_omega_0 (stage_L s) (capacitance s)"
    and angle: "pi / 2 < spec_omega_d (stage_L s) (capacitance s) (resistance (properties s)) * (t - t0)"
        "spec_omega_d (stage_L s) (capacitance s) (resistance (properties s)) * (t - t0) < pi"
  shows "fst (get_current_derivative s t) < 0"
proof -
  let ?L = "stage_L s" and ?C = "capacitance s" and ?R = "resistance (properties s)"
  define a where "a = spec_alpha ?R ?L"
  define w where "w = spec_omega_d ?L ?C ?R"
  define x where "x = t - t0"
  have a: "0 \<le> a" using pos by (simp add: a_def spec_alpha_def)
  have w: "0 < w" unfolding w_def using omega_d_pos a under by (simp add: a_def)
  define A where "A = voltage s / (w * ?L)"
  have A: "0 < A" using pos w by (simp add: A_def)
  have c: "cos (w * x) < 0" using angle by (intro cos_neg_second_quadrant) (simp_all add: w_def x_def)
  have "0 < w * x" using angle pi_half_gt_zero by (simp add: w_def x_def)
  then have sn: "0 < sin (w * x)" using angle by (intro sin_gt_zero) (simp_all add: w_def x_def)
  have "w * cos (w * x) < 0" using w c by (simp add: mult_pos_neg)
  moreover have "0 \<le> a * sin (w * x)" using a sn by simp
  ultimately have "w * cos (w * x) - a * sin (w * x) < 0" by linarith
  then have "A * exp (- a * x) * (w * cos (w * x) - a * sin (w * x)) < 0"
    using A by (simp add: mult_pos_neg)
  moreover have "fst (get_current_derivative s t) =
          A * exp (- a * x) * (w * cos (w * x) - a * sin (w * x))"
    using under by (simp add: get_current_derivative_value [OF act] Let_def a_def w_def A_def x_def)
  ultimately show ?thesis by simp
qed


lemma pi_squared_bounds: "9 \<le> pi ^ 2" "pi ^ 2 < 16"
proof -
  show "9 \<le> pi ^ 2" using power_mono [OF pi_ge_three, of 2] by simp
  show "pi ^ 2 < 16" using power_strict_mono [OF pi_less_4, of 2] by simp
qed

lemma example_omega_d_squared:
  "(spec_omega_0 (81 / 500000 * pi ^ 2) (1 / 1000)) ^ 2
     - (spec_alpha (37800 / 165649) (81 / 500000 * pi ^ 2)) ^ 2
   = (500000000 / 81) / pi ^ 2 - ((37800 / 165649) ^ 2 / (4 * (81 / 500000) ^ 2)) / (pi ^ 2) ^ 2"
proof -
  have "(spec_omega_0 (81 / 500000 * pi ^ 2) (1 / 1000)) ^ 2 = 1 / ((81 / 500000 * pi ^ 2) * (1 / 1000))"
    by (rule omega_0_sq) simp_all
  also have "\<dots> = (500000000 / 81) / pi ^ 2" by simp
  finally have 1: "(spec_omega_0 (81 / 500000 * pi ^ 2) (1 / 1000)) ^ 2 = (500000000 / 81) / pi ^ 2" .
  have 2: "(spec_alpha (37800 / 165649) (81 / 500000 * pi ^ 2)) ^ 2
      = ((37800 / 165649) ^ 2 / (4 * (81 / 500000) ^ 2)) / (pi ^ 2) ^ 2"
    by (simp add: spec_alpha_def power_divide power_mult_distrib)
  show ?thesis by (simp only: 1 2)
qed

lemma example_omega_d_squared_bounds:
  "(5000 / 9) ^ 2 < (500000000 / 81) / pi ^ 2
        - ((37800 / 165649) ^ 2 / (4 * (81 / 500000) ^ 2)) / (pi ^ 2) ^ 2"
  "(500000000 / 81) / pi ^ 2
        - ((37800 / 165649) ^ 2 / (4 * (81 / 500000) ^ 2)) / (pi ^ 2) ^ 2 < (2500 / 3) ^ 2"
proof -
  define q where "q = pi ^ 2"
  have q: "9 \<le> q" "q < 16" using pi_squared_bounds by (simp_all add: q_def)
  have q2: "81 \<le> q ^ 2" using power_mono [OF q(1), of 2] by simp
  let ?K1 = "500000000 / 81 :: real"
  let ?K2 = "(37800 / 165649) ^ 2 / (4 * (81 / 500000) ^ 2) :: real"
  have k2: "0 \<le> ?K2" by simp
  have a: "?K1 / 16 < ?K1 / q" using q by (intro divide_strict_left_mono) simp_all
  have "0 < q" using q by simp
  then have b: "?K2 / q ^ 2 \<le> ?K2 / 81" using q2 k2 by (intro divide_left_mono) simp_all
  have c: "?K1 / q \<le> ?K1 / 9" using q by (intro divide_left_mono) simp_all
  have d: "0 \<le> ?K2 / q ^ 2" using k2 by simp
  have n1: "(5000 / 9) ^ 2 < ?K1 / 16 - ?K2 / 81" by (simp add: power2_eq_square)
  have n2: "?K1 / 9 < (2500 / 3) ^ 2" by (simp add: power2_eq_square)
  show "(5000 / 9) ^ 2 < ?K1 / pi ^ 2 - ?K2 / (pi ^ 2) ^ 2"
    using a b n1 unfolding q_def by linarith
  show "?K1 / pi ^ 2 - ?K2 / (pi ^ 2) ^ 2 < (2500 / 3) ^ 2"
    using c d n2 unfolding q_def by linarith
qed

lemma example_angle:
  "pi / 2 < spec_omega_d (81 / 500000 * pi ^ 2) (1 / 1000) (37800 / 165649) * 0.0036"
  "spec_omega_d (81 / 500000 * pi ^ 2) (1 / 1000) (37800 / 165649) * 0.0036 < pi"
proof -
  let ?w = "spec_omega_d (81 / 500000 * pi ^ 2) (1 / 1000) (37800 / 165649)"
  have "sqrt ((5000 / 9) ^ 2) < ?w"
    unfolding spec_omega_d_def example_omega_d_squared
    using example_omega_d_squared_bounds(1) by (simp only: real_sqrt_less_iff)
  then have lo: "5000 / 9 < ?w" by simp
  have "?w < sqrt ((2500 / 3) ^ 2)"
    unfolding spec_omega_d_def example_omega_d_squared
    using example_omega_d_squared_bounds(2) by (simp only: real_sqrt_less_iff)
  then have hi: "?w < 2500 / 3" by simp
  have "2 < ?w * 0.0036" using lo by simp
  then show "pi / 2 < ?w * 0.0036" using pi_half_less_two by linarith
  have "?w * 0.0036 < 3" using hi by simp
  then show "?w * 0.0036 < pi" using pi_ge_three by linarith
qed

lemma example_derivative_negative:
  "fst (get_current_derivative example_active_stage 0.0036) < 0"
proof -
  have t: "(0::real) \<le> 0.0036" by simp
  show ?thesis
    using example_underdamped example_angle
    by (intro derivative_negative_after_peak [OF example_active_fields(1,2) t])
       (simp_all add: example_active_fields)
qed


lemma example_discharging_fields:
  "stages example_discharging_service = [example_active_stage]"
  "time example_discharging_service = 0.0036"
  "physics example_discharging_service = PhysicsEngine_init"
  "velocity (capsule example_discharging_service) = 0"
  "current (capsule example_discharging_service) = 0"
  "position (capsule example_discharging_service) = 0.02"
  "resistance (properties (capsule example_discharging_service)) = 2.65 / 10 ^ 6"
  "properties (capsule example_discharging_service) =
     \<lparr>turns = 1, diameter = 0.083, length_m = 0.02, resistance = 2.65 / 10 ^ 6,
      position_m = 0.02\<rparr>"
  by (simp_all add: example_discharging_service_def SimulationService_init_def
      update_position_def example_capsule_eq)

lemma example_discharging_coupling:
  "calculate_mutual_inductance (physics example_discharging_service) example_active_stage
     (capsule example_discharging_service)
     (max 0.001 (abs (position (capsule example_discharging_service)
                       - position_m (properties example_active_stage))))
   = Inr (mu_0 PhysicsEngine_init * sqrt (0.045 * 0.0415) * sqrt 100 * (2 / 5))"
  by (simp add: example_discharging_fields calculate_mutual_inductance_def
      calculate_overlapping_inductance_def Let_def example_active_stage_def activate_def
      example_stage_eq)

text \<open>
  C2 (as stated, refuted): the fixture stage was activated at time 0, the capsule rests
  at 0.02 with no current, and the clock of the service stands at 3.6 ms, past the peak
  of the discharge. The stage current is falling, the induced EMF is negative, and
  \<^verbatim>\<open>_update_capsule_current\<close> leaves the capsule with a negative current.
\<close>

theorem update_drives_current_negative:
  "\<not> isl (update_capsule_current example_discharging_service) \<and>
   0 \<le> current (capsule example_discharging_service) \<and>
   current (capsule (projr (update_capsule_current example_discharging_service))) < 0"
proof -
  let ?s = "example_discharging_service"
  have r: "0 < resistance (properties (capsule ?s))" by (simp add: example_discharging_fields)
  obtain m s' where m: "calculate_mutual_inductance (physics ?s) example_active_stage (capsule ?s)
         (max 0.001 (abs (position (capsule ?s) - position_m (properties example_active_stage))))
           = Inr m"
      and s': "update_capsule_current ?s = Inr s'"
      and c: "current (capsule s') = current (capsule ?s)
                + 0.1 * (m * fst (get_current_derivative example_active_stage (time ?s))
                           / resistance (properties (capsule ?s)) - current (capsule ?s))"
    using update_single_stage [OF example_discharging_fields(1) example_active_fields(1)
        example_discharging_fields(4) r] by blast
  have "m = mu_0 PhysicsEngine_init * sqrt (0.045 * 0.0415) * sqrt 100 * (2 / 5)"
    using m unfolding example_discharging_coupling by simp
  then have mpos: "0 < m" using mu_0_pos by simp
  have "m * fst (get_current_derivative example_active_stage 0.0036) < 0"
    using mpos example_derivative_negative by (rule mult_pos_neg)
  then have "m * fst (get_current_derivative example_active_stage 0.0036) / (2.65 / 10 ^ 6) < 0"
    by (simp add: divide_neg_pos)
  then have "current (capsule s') < 0"
    unfolding c example_discharging_fields by simp
  then show ?thesis using s' by (simp add: example_discharging_fields)
qed

lemma smoothing_nonneg:
  fixes x y :: real
  assumes "0 \<le> x" "0 \<le> y"
  shows "0 \<le> x + 0.1 * (y - x)"
proof -
  have "x + 0.1 * (y - x) = 0.9 * x + 0.1 * y" by (simp add: field_simps)
  then show ?thesis using assms by simp
qed

lemma smoothing_negative:
  fixes x e R :: real
  assumes "0 < R"
  shows "x + 0.1 * (e / R - x) < 0 \<longleftrightarrow> e < - 9 * R * x"
proof -
  have "x + 0.1 * (e / R - x) = (9 * R * x + e) / (10 * R)"
    using assms by (simp add: field_simps)
  moreover have "(9 * R * x + e) / (10 * R) < 0 \<longleftrightarrow> 9 * R * x + e < 0"
    using assms by (simp add: divide_less_0_iff)
  ultimately show ?thesis by auto
qed

text \<open>
  At the very time of the activation the discharge current of an underdamped stage rises
  at the rate \<open>V / L\<close>.
\<close>

lemma derivative_at_activation:
  assumes act: "is_active s" "activation_time s = Some t0"
    and pos: "0 < voltage s" "0 < stage_L s" "0 \<le> resistance (properties s)"
    and under: "spec_alpha (resistance (properties s)) (stage_L s)
                  < spec_omega_0 (stage_L s) (capacitance s)"
  shows "fst (get_current_derivative s t0) = voltage s / stage_L s"
    "0 < fst (get_current_derivative s t0)"
proof -
  let ?L = "stage_L s" and ?C = "capacitance s" and ?R = "resistance (properties s)"
  define w where "w = spec_omega_d ?L ?C ?R"
  have a: "0 \<le> spec_alpha ?R ?L" using pos by (simp add: spec_alpha_def)
  have w: "0 < w" unfolding w_def using a under by (rule omega_d_pos)
  have t: "t0 \<le> t0" by simp
  have "fst (get_current_derivative s t0) = voltage s / (w * ?L) * w"
    using under by (simp add: get_current_derivative_value [OF act t] Let_def w_def)
  also have "\<dots> = voltage s / ?L" using w by simp
  finally show "fst (get_current_derivative s t0) = voltage s / stage_L s" .
  then show "0 < fst (get_current_derivative s t0)" using pos by simp
qed

lemma example_derivative_positive:
  "0 < fst (get_current_derivative example_active_stage 0)"
  using example_underdamped
  by (intro derivative_at_activation(2) [OF example_active_fields(1,2)])
     (simp_all add: example_active_fields)

lemma example_activated_fields:
  "stages example_activated_service = [example_active_stage]"
  "time example_activated_service = 0"
  "physics example_activated_service = PhysicsEngine_init"
  "velocity (capsule example_activated_service) = 0"
  "current (capsule example_activated_service) = 0"
  "position (capsule example_activated_service) = 0.02"
  "resistance (properties (capsule example_activated_service)) = 2.65 / 10 ^ 6"
  "properties (capsule example_activated_service) =
     \<lparr>turns = 1, diameter = 0.083, length_m = 0.02, resistance = 2.65 / 10 ^ 6,
      position_m = 0.02\<rparr>"
  by (simp_all add: example_activated_service_def check_stage_activations_def
      example_scenario_service_def SimulationService_init_def update_position_def
      example_capsule_eq example_active_stage_def example_stage_eq Let_def)

lemma example_activated_coupling:
  "calculate_mutual_inductance (physics example_activated_service) example_active_stage
     (capsule example_activated_service)
     (max 0.001 (abs (position (capsule example_activated_service)
                       - position_m (properties example_active_stage))))
   = Inr (mu_0 PhysicsEngine_init * sqrt (0.045 * 0.0415) * sqrt 100 * (2 / 5))"
  by (simp add: example_activated_fields calculate_mutual_inductance_def
      calculate_overlapping_inductance_def Let_def example_active_stage_def activate_def
      example_stage_eq)

lemma example_services_well_formed:
  "well_formed_service example_scenario_service"
  "well_formed_service example_activated_service"
  "well_formed_service example_discharging_service"
proof -
  have c: "well_formed_capsule (update_position 0.02 example_capsule)"
    using capsule_init_well_formed [OF example_capsule_init]
    by (rule update_position_well_formed)
  show w: "well_formed_service example_scenario_service"
    using c example_stage_well_formed(1)
    by (simp add: well_formed_service_def example_scenario_service_def
        SimulationService_init_def)
  show "well_formed_service example_activated_service"
    unfolding example_activated_service_def
    using w by (rule check_stage_activations_well_formed)
  show "well_formed_service example_discharging_service"
    using c example_stage_well_formed(2)
    by (simp add: well_formed_service_def example_discharging_service_def
        SimulationService_init_def)
qed

text \<open>
  The EMF that \<^verbatim>\<open>_update_capsule_current\<close> sums on the two services with the active
  fixture stage: positive at the time of the activation, negative at 3.6 ms.
\<close>

lemma example_activated_emf:
  "\<exists>emf sts'. induced_emf_loop example_activated_service 0 (stages example_activated_service)
                 = Inr (emf, sts') \<and> 0 < emf"
proof -
  let ?s = "example_activated_service"
  obtain m sts' where m: "calculate_mutual_inductance (physics ?s) example_active_stage (capsule ?s)
         (max 0.001 (abs (position (capsule ?s) - position_m (properties example_active_stage))))
           = Inr m"
      and l: "induced_emf_loop ?s 0 [example_active_stage]
                = Inr (m * fst (get_current_derivative example_active_stage (time ?s)), sts')"
    using induced_emf_single_stage [OF example_active_fields(1) example_activated_fields(4)]
    by blast
  have "m = mu_0 PhysicsEngine_init * sqrt (0.045 * 0.0415) * sqrt 100 * (2 / 5)"
    using m unfolding example_activated_coupling by simp
  then have "0 < m" using mu_0_pos by simp
  then have "0 < m * fst (get_current_derivative example_active_stage 0)"
    using example_derivative_positive by simp
  then show ?thesis using l by (simp add: example_activated_fields)
qed

lemma example_discharging_emf:
  "\<exists>emf sts'. induced_emf_loop example_discharging_service 0 (stages example_discharging_service)
                 = Inr (emf, sts') \<and> emf < 0"
proof -
  let ?s = "example_discharging_service"
  obtain m sts' where m: "calculate_mutual_inductance (physics ?s) example_active_stage (capsule ?s)
         (max 0.001 (abs (position (capsule ?s) - position_m (properties example_active_stage))))
           = Inr m"
      and l: "induced_emf_loop ?s 0 [example_active_stage]
                = Inr (m * fst (get_current_derivative example_active_stage (time ?s)), sts')"
    using induced_emf_single_stage [OF example_active_fields(1) example_discharging_fields(4)]
    by blast
  have "m = mu_0 PhysicsEngine_init * sqrt (0.045 * 0.0415) * sqrt 100 * (2 / 5)"
    using m unfolding example_discharging_coupling by simp
  then have "0 < m" using mu_0_pos by simp
  then have "m * fst (get_current_derivative example_active_stage 0.0036) < 0"
    using example_derivative_negative by (rule mult_pos_neg)
  then show ?thesis using l by (simp add: example_discharging_fields)
qed

text \<open>
  C2 (amended): \<^verbatim>\<open>set_current\<close> rejects a negative value with a validation error and
  stores any other value. The per-step update of the orchestrator, on a service around a
  constructed capsule and constructed stages, once it has summed the EMF that the stages
  induce, assigns \<open>current + 0.1 (EMF / R - current)\<close> to the capsule's current without
  a sign check: the current stays non-negative when it was non-negative and the summed
  EMF is non-negative, and it becomes negative exactly when \<open>EMF < - 9 R current\<close>.
\<close>

theorem capsule_current_sign:
  assumes "well_formed_service s"
      and "induced_emf_loop s 0 (stages s) = Inr (emf, sts')"
  shows "(i < 0 \<longrightarrow> set_current i c = Inl (ValueError ''Current cannot be negative'')) \<and>
   (0 \<le> i \<longrightarrow> set_current i c = Inr (c\<lparr>current := i\<rparr>)) \<and>
   (\<exists>s'. update_capsule_current s = Inr s' \<and> well_formed_service s'
       \<and> current (capsule s') =
            current (capsule s)
              + 0.1 * (emf / resistance (properties (capsule s)) - current (capsule s))
       \<and> (0 \<le> current (capsule s) \<and> 0 \<le> emf \<longrightarrow> 0 \<le> current (capsule s'))
       \<and> (current (capsule s') < 0
            \<longleftrightarrow> emf < - 9 * resistance (properties (capsule s)) * current (capsule s)))"
proof -
  have r: "0 < resistance (properties (capsule s))"
    using assms(1) by (simp add: well_formed_service_def well_formed_capsule_def)
  note e = assms(2)
  define s' where "s' = s\<lparr>stages := sts', capsule := (capsule s)\<lparr>current := current (capsule s)
               + 0.1 * (emf / resistance (properties (capsule s)) - current (capsule s))\<rparr>\<rparr>"
  have u: "update_capsule_current s = Inr s'"
    using e r by (simp add: update_capsule_current_def Let_def s'_def)
  have w: "well_formed_service s'" using u assms(1) by (rule update_capsule_current_well_formed)
  have v: "current (capsule s') =
            current (capsule s)
              + 0.1 * (emf / resistance (properties (capsule s)) - current (capsule s))"
    by (simp add: s'_def)
  have p: "0 \<le> current (capsule s')" if "0 \<le> current (capsule s)" "0 \<le> emf"
  proof -
    have "0 \<le> emf / resistance (properties (capsule s))" using that r by simp
    then show ?thesis unfolding v using that(1) by (intro smoothing_nonneg)
  qed
  have n: "current (capsule s') < 0
            \<longleftrightarrow> emf < - 9 * resistance (properties (capsule s)) * current (capsule s)"
    unfolding v using r by (rule smoothing_negative)
  have "\<exists>s'. update_capsule_current s = Inr s' \<and> well_formed_service s'
       \<and> current (capsule s') =
            current (capsule s)
              + 0.1 * (emf / resistance (properties (capsule s)) - current (capsule s))
       \<and> (0 \<le> current (capsule s) \<and> 0 \<le> emf \<longrightarrow> 0 \<le> current (capsule s'))
       \<and> (current (capsule s') < 0
            \<longleftrightarrow> emf < - 9 * resistance (properties (capsule s)) * current (capsule s))"
    using u v w p n by blast
  then show ?thesis by (simp add: set_current_def)
qed

theorem capsule_current_sign_witness:
  "set_current (- 1) example_capsule = Inl (ValueError ''Current cannot be negative'') \<and>
   set_current 50 example_capsule = Inr (example_capsule\<lparr>current := 50\<rparr>) \<and>
   (\<exists>emf sts' s'.
       induced_emf_loop example_activated_service 0 (stages example_activated_service)
         = Inr (emf, sts')
       \<and> 0 < emf
       \<and> update_capsule_current example_activated_service = Inr s' \<and> well_formed_service s'
       \<and> current (capsule s') = 0.1 * (emf / (2.65 / 10 ^ 6))
       \<and> 0 \<le> current (capsule s')) \<and>
   (\<exists>emf sts' s'.
       induced_emf_loop example_discharging_service 0 (stages example_discharging_service)
         = Inr (emf, sts')
       \<and> emf < 0
       \<and> update_capsule_current example_discharging_service = Inr s' \<and> well_formed_service s'
       \<and> current (capsule s') = 0.1 * (emf / (2.65 / 10 ^ 6))
       \<and> current (capsule s') < 0)"
proof -
  obtain e1 l1 where e1: "induced_emf_loop example_activated_service 0
        (stages example_activated_service) = Inr (e1, l1)" "0 < e1"
    using example_activated_emf by blast
  obtain e2 l2 where e2: "induced_emf_loop example_discharging_service 0
        (stages example_discharging_service) = Inr (e2, l2)" "e2 < 0"
    using example_discharging_emf by blast
  have a: "\<exists>s'. update_capsule_current example_activated_service = Inr s'
       \<and> well_formed_service s'
       \<and> current (capsule s') = 0.1 * (e1 / (2.65 / 10 ^ 6))
       \<and> 0 \<le> current (capsule s')"
    using capsule_current_sign [OF example_services_well_formed(2) e1(1), of 50 example_capsule]
      e1(2)
    by (auto simp: example_activated_fields)
  have b: "set_current (- 1) example_capsule = Inl (ValueError ''Current cannot be negative'')
       \<and> (\<exists>s'. update_capsule_current example_discharging_service = Inr s'
       \<and> well_formed_service s'
       \<and> current (capsule s') = 0.1 * (e2 / (2.65 / 10 ^ 6))
       \<and> current (capsule s') < 0)"
    using capsule_current_sign [OF example_services_well_formed(3) e2(1), of "- 1" example_capsule]
      e2(2)
    by (auto simp: example_discharging_fields)
  have c: "set_current 50 example_capsule = Inr (example_capsule\<lparr>current := 50\<rparr>)"
    using capsule_current_sign [OF example_services_well_formed(2) e1(1), of 50 example_capsule]
    by simp
  show ?thesis using a b c e1 e2 by blast
qed

subsection \<open>Symmetry of the mutual inductance\<close>

lemma fl_four_pi: "fl (4 * (884279719003555 / 2 ^ 48)) = 7074237752028440 / 2 ^ 49"
  using fl_nearest [of "4 * (884279719003555 / 2 ^ 48)" 49 7074237752028440] by simp

lemma fl_tenth_micro: "fl (1 / 10 ^ 7) = 7555786372591432 / 2 ^ 76"
  using fl_nearest [of "1 / 10 ^ 7" 76 7555786372591432] by simp

lemma fl_mu_0_product: "fl (7074237752028440 / 2 ^ 49 * (7555786372591432 / 2 ^ 76)) = 5934300740056779 / 2 ^ 72"
  using fl_nearest [of "7074237752028440 / 2 ^ 49 * (7555786372591432 / 2 ^ 76)" 72 5934300740056779] by simp

lemma fl_mu_0_pi: "fl (5934300740056779 / 2 ^ 72 * (884279719003555 / 2 ^ 48)) = 4660788902288712 / 2 ^ 70"
  using fl_nearest [of "5934300740056779 / 2 ^ 72 * (884279719003555 / 2 ^ 48)" 70 4660788902288712] by simp

lemma fl_radius_a: "fl (11 / 128 / 2) = 6192449487634432 / 2 ^ 57"
  using fl_nearest [of "11 / 128 / 2" 57 6192449487634432] by simp

lemma fl_radius_b: "fl (25 / 256 / 2) = 7036874417766400 / 2 ^ 57"
  using fl_nearest [of "25 / 256 / 2" 57 7036874417766400] by simp

lemma fl_square_a: "fl ((6192449487634432 / 2 ^ 57) ^ 2) = 8514618045497344 / 2 ^ 62"
  using fl_nearest [of "(6192449487634432 / 2 ^ 57) ^ 2" 62 8514618045497344] by (simp add: power_divide)

lemma fl_square_b: "fl ((7036874417766400 / 2 ^ 57) ^ 2) = 5497558138880000 / 2 ^ 61"
  using fl_nearest [of "(7036874417766400 / 2 ^ 57) ^ 2" 61 5497558138880000] by (simp add: power_divide)

lemma fl_turns: "fl (100) = 7036874417766400 / 2 ^ 46"
  using fl_nearest [of "100" 46 7036874417766400] by simp

lemma fl_sqrt_turns: "fl (10) = 5629499534213120 / 2 ^ 49"
  using fl_nearest [of "10" 49 5629499534213120] by simp

lemma fl_cube: "fl ((1 / 8) ^ 3) = 4503599627370496 / 2 ^ 61"
  using fl_nearest [of "(1 / 8) ^ 3" 61 4503599627370496] by (simp add: power_divide)

lemma fl_ab_1: "fl (4660788902288712 / 2 ^ 70 * (8514618045497344 / 2 ^ 62)) = 8811804018389596 / 2 ^ 80"
  using fl_nearest [of "4660788902288712 / 2 ^ 70 * (8514618045497344 / 2 ^ 62)" 80 8811804018389596] by simp

lemma fl_ab_2: "fl (8811804018389596 / 2 ^ 80 * (5497558138880000 / 2 ^ 61)) = 5378298351067869 / 2 ^ 88"
  using fl_nearest [of "8811804018389596 / 2 ^ 80 * (5497558138880000 / 2 ^ 61)" 88 5378298351067869] by simp

lemma fl_ab_3: "fl (5378298351067869 / 2 ^ 88 * (5629499534213120 / 2 ^ 49)) = 6722872938834836 / 2 ^ 85"
  using fl_nearest [of "5378298351067869 / 2 ^ 88 * (5629499534213120 / 2 ^ 49)" 85 6722872938834836] by simp

lemma fl_ab_4: "fl (6722872938834836 / 2 ^ 85 / (4503599627370496 / 2 ^ 61)) = 6722872938834836 / 2 ^ 76"
  using fl_nearest [of "6722872938834836 / 2 ^ 85 / (4503599627370496 / 2 ^ 61)" 76 6722872938834836] by simp

lemma fl_ba_1: "fl (4660788902288712 / 2 ^ 70 * (5497558138880000 / 2 ^ 61)) = 5689439577989150 / 2 ^ 79"
  using fl_nearest [of "4660788902288712 / 2 ^ 70 * (5497558138880000 / 2 ^ 61)" 79 5689439577989150] by simp

lemma fl_ba_2: "fl (5689439577989150 / 2 ^ 79 * (8514618045497344 / 2 ^ 62)) = 5378298351067868 / 2 ^ 88"
  using fl_nearest [of "5689439577989150 / 2 ^ 79 * (8514618045497344 / 2 ^ 62)" 88 5378298351067868] by simp

lemma fl_ba_3: "fl (5378298351067868 / 2 ^ 88 * (5629499534213120 / 2 ^ 49)) = 6722872938834835 / 2 ^ 85"
  using fl_nearest [of "5378298351067868 / 2 ^ 88 * (5629499534213120 / 2 ^ 49)" 85 6722872938834835] by simp

lemma fl_ba_4: "fl (6722872938834835 / 2 ^ 85 / (4503599627370496 / 2 ^ 61)) = 6722872938834835 / 2 ^ 76"
  using fl_nearest [of "6722872938834835 / 2 ^ 85 / (4503599627370496 / 2 ^ 61)" 76 6722872938834835] by simp

lemma fl_mu_0_value: "mu_0 fl_PhysicsEngine_init = 5934300740056779 / 2 ^ 72"
  unfolding fl_PhysicsEngine_init_def np_pi_def
  by (simp only: PhysicsEngine.simps fl_four_pi fl_tenth_micro fl_mu_0_product)

lemma dyadic_fields:
  "diameter (properties dyadic_capsule) = 11 / 128"
  "length_m (properties dyadic_capsule) = 1 / 32"
  "turns (properties dyadic_capsule) = 1"
  "diameter (properties dyadic_stage) = 25 / 256"
  "length_m (properties dyadic_stage) = 1 / 16"
  "turns (properties dyadic_stage) = 100"
  by (simp_all add: dyadic_capsule_def dyadic_stage_def Capsule_init_def
      Capsule_calculate_resistance_def CoilProperties_init_def stage_init_cases Let_def)

lemma sqrt_turns: "sqrt (7036874417766400 / 2 ^ 46) = 10"
proof -
  have "(7036874417766400 / 2 ^ 46 :: real) = 10 ^ 2" by simp
  then show ?thesis by simp
qed

lemma far_field_capsule_stage:
  "fl_calculate_far_field_inductance fl_PhysicsEngine_init dyadic_capsule dyadic_stage (1 / 8)
     = 6722872938834836 / 2 ^ 76"
  unfolding fl_calculate_far_field_inductance_def Let_def np_pi_def
  by (simp only: fl_mu_0_value dyadic_fields mult_1 of_int_numeral fl_radius_a fl_radius_b
      fl_square_a fl_square_b fl_mu_0_pi fl_turns sqrt_turns fl_sqrt_turns fl_cube
      fl_ab_1 fl_ab_2 fl_ab_3 fl_ab_4)

lemma far_field_stage_capsule:
  "fl_calculate_far_field_inductance fl_PhysicsEngine_init dyadic_stage dyadic_capsule (1 / 8)
     = 6722872938834835 / 2 ^ 76"
  unfolding fl_calculate_far_field_inductance_def Let_def np_pi_def
  by (simp only: fl_mu_0_value dyadic_fields mult_1_right of_int_numeral fl_radius_a fl_radius_b
      fl_square_a fl_square_b fl_mu_0_pi fl_turns sqrt_turns fl_sqrt_turns fl_cube
      fl_ba_1 fl_ba_2 fl_ba_3 fl_ba_4)

text \<open>
  C6 (as stated, refuted): at distance 0.125, beyond both lengths, the far-field branch
  multiplies \<open>fl (mu_0 * np_pi)\<close> by the two squared radii from left to right. With the
  capsule first the result is 6722872938834836 / 2^76, with the stage first it is
  6722872938834835 / 2^76: the same number in exact arithmetic, two different doubles.
\<close>

theorem far_field_last_bit_differs:
  "fl_calculate_mutual_inductance fl_PhysicsEngine_init dyadic_capsule dyadic_stage (1 / 8)
     = Inr (6722872938834836 / 2 ^ 76) \<and>
   fl_calculate_mutual_inductance fl_PhysicsEngine_init dyadic_stage dyadic_capsule (1 / 8)
     = Inr (6722872938834835 / 2 ^ 76) \<and>
   fl_calculate_mutual_inductance fl_PhysicsEngine_init dyadic_capsule dyadic_stage (1 / 8)
     \<noteq> fl_calculate_mutual_inductance fl_PhysicsEngine_init dyadic_stage dyadic_capsule (1 / 8)"
proof -
  have b: "\<not> (1 / 8 :: real) < 0"
      "\<not> (1 / 8) < max (length_m (properties dyadic_capsule)) (length_m (properties dyadic_stage))"
      "\<not> (1 / 8) < max (length_m (properties dyadic_stage)) (length_m (properties dyadic_capsule))"
    by (simp_all add: dyadic_fields)
  have 1: "fl_calculate_mutual_inductance fl_PhysicsEngine_init dyadic_capsule dyadic_stage (1 / 8)
     = Inr (6722872938834836 / 2 ^ 76)"
    unfolding fl_calculate_mutual_inductance_def
    by (simp only: b if_False far_field_capsule_stage)
  have 2: "fl_calculate_mutual_inductance fl_PhysicsEngine_init dyadic_stage dyadic_capsule (1 / 8)
     = Inr (6722872938834835 / 2 ^ 76)"
    unfolding fl_calculate_mutual_inductance_def
    by (simp only: b if_False far_field_stage_capsule)
  show ?thesis unfolding 1 2 by simp
qed

lemma mutual_inductance_symmetric_exact:
  "calculate_mutual_inductance e a b d = calculate_mutual_inductance e b a d"
  by (simp add: calculate_mutual_inductance_def calculate_overlapping_inductance_def
      calculate_far_field_inductance_def Let_def max.commute mult.commute mult.left_commute)

lemma near_field_symmetric_rounded:
  "fl_calculate_overlapping_inductance e a b d = fl_calculate_overlapping_inductance e b a d"
  by (simp add: fl_calculate_overlapping_inductance_def Let_def max.commute mult.commute)

text \<open>
  C6 (amended): for valid elements, \<^verbatim>\<open>calculate_mutual_inductance(a, b, d)\<close> and
  \<^verbatim>\<open>calculate_mutual_inductance(b, a, d)\<close> are equal in exact arithmetic, in both
  branches; in rounded arithmetic they are the same float whenever the near-field branch
  is taken.
\<close>

theorem mutual_inductance_symmetry:
  assumes "valid_properties (properties a)" "valid_properties (properties b)" "0 \<le> d"
  shows "calculate_mutual_inductance e a b d = calculate_mutual_inductance e b a d \<and>
   (d < max (length_m (properties a)) (length_m (properties b)) \<longrightarrow>
      fl_calculate_mutual_inductance e a b d = fl_calculate_mutual_inductance e b a d)"
  using mutual_inductance_symmetric_exact [of e a b d] near_field_symmetric_rounded [of e a b d]
  by (simp add: fl_calculate_mutual_inductance_def max.commute)

lemma dyadic_valid:
  "valid_properties (properties dyadic_capsule)" "valid_properties (properties dyadic_stage)"
  by (simp_all add: valid_properties_def dyadic_fields)

theorem mutual_inductance_symmetry_witness:
  "calculate_mutual_inductance PhysicsEngine_init dyadic_capsule dyadic_stage (1 / 8)
     = calculate_mutual_inductance PhysicsEngine_init dyadic_stage dyadic_capsule (1 / 8) \<and>
   fl_calculate_mutual_inductance fl_PhysicsEngine_init dyadic_capsule dyadic_stage (1 / 64)
     = fl_calculate_mutual_inductance fl_PhysicsEngine_init dyadic_stage dyadic_capsule (1 / 64)"
proof -
  have "(0::real) \<le> 1 / 8" "(0::real) \<le> 1 / 64" by simp_all
  then show ?thesis
    using mutual_inductance_symmetry [OF dyadic_valid, of "1 / 8" PhysicsEngine_init]
          mutual_inductance_symmetry [OF dyadic_valid, of "1 / 64" fl_PhysicsEngine_init]
    by (simp add: dyadic_fields)
qed

end
